theory Spec2Isabelle
  imports Main "HOL-Library.Word"
begin

section \<open>JavaScript values\<close>

text \<open>
  A JavaScript string is a sequence of UTF-16 code units; \<open>length\<close>, \<open>substring\<close>
  and \<open>trim\<close> all count code units. Property names and string literals of the
  source are written as HOL strings and embedded with \<open>lit\<close>.
\<close>

type_synonym jsstring = "16 word list"

definition lit :: "string \<Rightarrow> jsstring" where
  "lit s = map (\<lambda>c. of_nat (of_char c)) s"

text \<open>
  The values that can occur in a parsed JSON payload or in a database row, as far as
  the workflow inspects them: \<open>undefined\<close> (a missing property), \<open>null\<close>, booleans,
  numbers (integers here) and strings.
\<close>

datatype jsval = JUndefined | JNull | JBool bool | JNum int | JStr jsstring

text \<open>An object is its list of own properties in insertion order.\<close>

type_synonym jsobj = "(string \<times> jsval) list"

fun truthy :: "jsval \<Rightarrow> bool" where
  "truthy JUndefined = False"
| "truthy JNull = False"
| "truthy (JBool b) = b"
| "truthy (JNum n) = (n \<noteq> 0)"
| "truthy (JStr s) = (s \<noteq> [])"

text \<open>\<open>a || b\<close>\<close>

definition js_or :: "jsval \<Rightarrow> jsval \<Rightarrow> jsval" where
  "js_or a b = (if truthy a then a else b)"

text \<open>\<open>obj.k\<close>, \<open>obj.k = v\<close> and \<open>delete obj.k\<close>\<close>

definition obj_get :: "jsobj \<Rightarrow> string \<Rightarrow> jsval" where
  "obj_get obj k = (case map_of obj k of None \<Rightarrow> JUndefined | Some v \<Rightarrow> v)"

fun obj_set :: "jsobj \<Rightarrow> string \<Rightarrow> jsval \<Rightarrow> jsobj" where
  "obj_set [] k v = [(k, v)]"
| "obj_set ((k', v') # ps) k v = (if k' = k then (k, v) # ps else (k', v') # obj_set ps k v)"

definition obj_delete :: "jsobj \<Rightarrow> string \<Rightarrow> jsobj" where
  "obj_delete obj k = filter (\<lambda>p. fst p \<noteq> k) obj"

definition has_key :: "jsobj \<Rightarrow> string \<Rightarrow> bool" where
  "has_key obj k = (k \<in> fst ` set obj)"

text \<open>\<open>v.length\<close> of a value that is not \<open>null\<close> or \<open>undefined\<close>\<close>

fun js_length :: "jsval \<Rightarrow> jsval" where
  "js_length (JStr s) = JNum (int (length s))"
| "js_length _ = JUndefined"

subsection \<open>String operations of the language\<close>

text \<open>
  \<open>String.prototype.trim\<close> removes leading and trailing white space and line
  terminators: TAB, LF, VT, FF, CR, SPACE, NBSP, U+1680, U+2000 to U+200A, U+2028,
  U+2029, U+202F, U+205F, U+3000 and U+FEFF.
\<close>

definition is_js_space :: "16 word \<Rightarrow> bool" where
  "is_js_space c =
     (c = 0x9 \<or> c = 0xA \<or> c = 0xB \<or> c = 0xC \<or> c = 0xD \<or> c = 0x20 \<or> c = 0xA0 \<or>
      c = 0x1680 \<or> (0x2000 \<le> c \<and> c \<le> 0x200A) \<or> c = 0x2028 \<or> c = 0x2029 \<or>
      c = 0x202F \<or> c = 0x205F \<or> c = 0x3000 \<or> c = 0xFEFF)"

definition trim :: "jsstring \<Rightarrow> jsstring" where
  "trim s = rev (dropWhile is_js_space (rev (dropWhile is_js_space s)))"

text \<open>\<open>s.substring(0, n)\<close>\<close>

definition substring0 :: "jsstring \<Rightarrow> nat \<Rightarrow> jsstring" where
  "substring0 s n = take n s"

text \<open>Decimal rendering of a non-negative integer, as a template literal prints it.\<close>

fun dec :: "nat \<Rightarrow> jsstring" where
  "dec n = (if n < 10 then [of_nat (48 + n)] else dec (n div 10) @ [of_nat (48 + n mod 10)])"

declare dec.simps [simp del]

text \<open>
  \<open>new Blob([s]).size\<close>: the length of the UTF-8 encoding of \<open>s\<close>, in which a
  surrogate pair takes four bytes and a lone surrogate is replaced by U+FFFD.
\<close>

definition is_high_surrogate :: "16 word \<Rightarrow> bool" where
  "is_high_surrogate c = (0xD800 \<le> c \<and> c \<le> 0xDBFF)"

definition is_low_surrogate :: "16 word \<Rightarrow> bool" where
  "is_low_surrogate c = (0xDC00 \<le> c \<and> c \<le> 0xDFFF)"

fun blob_size :: "jsstring \<Rightarrow> nat" where
  "blob_size [] = 0"
| "blob_size [c] = (if c < 0x80 then 1 else if c < 0x800 then 2 else 3)"
| "blob_size (c # d # cs) =
     (if c < 0x80 then 1 + blob_size (d # cs)
      else if c < 0x800 then 2 + blob_size (d # cs)
      else if is_high_surrogate c \<and> is_low_surrogate d then 4 + blob_size cs
      else 3 + blob_size (d # cs))"

section \<open>The browser client: data\<close>

text \<open>The parts of a \<open>File\<close> object the workflow reads: \<open>name\<close>, \<open>size\<close>, \<open>type\<close>.\<close>

record js_file =
  file_name :: jsstring
  file_size :: nat
  file_type :: jsstring

text \<open>The \<open>message\<close> of a thrown or returned error object.\<close>

type_synonym js_error = jsstring

text \<open>
  The answer of a remote-store call: the promise rejects, or it settles with a
  \<open>{data, error}\<close> pair.
\<close>

datatype 'a reply = Rejected js_error | Settled "js_error option" 'a

text \<open>
  The answer of the analysis API: \<open>fetch\<close> or \<open>response.json()\<close> rejects, or there is
  a response with its \<open>ok\<close> flag and its parsed body, an object.
\<close>

datatype api_reply = ApiFailed js_error | ApiResponse bool jsobj

datatype toast_kind = ToastError | ToastSuccess

text \<open>
  Everything an operation does to the outside, in the order it does it: the
  remote-store calls, the API requests, the timer, and the calls of the view functions
  \<open>showToast\<close>, \<open>showResults\<close>, \<open>showLoading\<close>, \<open>hideLoading\<close>, \<open>clearFile\<close>.
\<close>

datatype call =
    StorageUpload jsstring js_file
  | StorageRemove jsval
  | DocumentsInsert jsobj
  | DocumentsDelete jsval
  | AnalysesInsert jsobj
  | AnalysesDelete jsval
  | ApiUpload js_file
  | ApiText jsstring
  | Delay nat
  | ShowToast jsval toast_kind
  | ShowResults jsobj
  | ShowLoading
  | HideLoading
  | ClearFile

fun is_network :: "call \<Rightarrow> bool" where
  "is_network (StorageUpload _ _) = True"
| "is_network (StorageRemove _) = True"
| "is_network (DocumentsInsert _) = True"
| "is_network (DocumentsDelete _) = True"
| "is_network (AnalysesInsert _) = True"
| "is_network (AnalysesDelete _) = True"
| "is_network (ApiUpload _) = True"
| "is_network (ApiText _) = True"
| "is_network _ = False"

fun is_api :: "call \<Rightarrow> bool" where
  "is_api (ApiUpload _) = True"
| "is_api (ApiText _) = True"
| "is_api _ = False"

fun is_deletion :: "call \<Rightarrow> bool" where
  "is_deletion (StorageRemove _) = True"
| "is_deletion (DocumentsDelete _) = True"
| "is_deletion (AnalysesDelete _) = True"
| "is_deletion _ = False"

fun is_cleanup :: "call \<Rightarrow> bool" where
  "is_cleanup (Delay _) = True"
| "is_cleanup c = is_deletion c"

text \<open>
  What the outside answers during one operation: the clock, the two library functions
  whose results the workflow only passes on, and the reply to each remote call (every
  call site is reached at most once per operation).
\<close>

record env =
  date_now :: nat
  iso_now :: jsstring
  public_url :: "jsstring \<Rightarrow> jsstring"
  stringify :: "jsobj \<Rightarrow> jsstring"
  storage_upload_reply :: "unit reply"
  documents_insert_reply :: "jsobj list option reply"
  api_answer :: api_reply
  analyses_insert_reply :: "jsobj list option reply"
  storage_remove_reply :: "unit reply"
  analyses_delete_reply :: "unit reply"
  documents_delete_reply :: "unit reply"

text \<open>
  The remote store (section 6 of the specification): an object storage addressed by
  path and the two tables \<open>documents\<close> and \<open>analyses\<close>. A call that settles without
  error has taken effect: an upload stores the object, an insert stores the rows it
  returns, a removal or deletion removes what the path or id selects. A call that
  rejects or settles with an error leaves the store as it was.
\<close>

record remote_store =
  bucket :: "(jsstring \<times> js_file) list"
  documents_table :: "jsobj list"
  analyses_table :: "jsobj list"

text \<open>
  The globals \<open>supabaseInitialized\<close> and \<open>supabaseClient\<close> (whether it is non-null),
  the remote store, and the calls made so far.
\<close>

record world =
  supabaseInitialized :: bool
  supabaseClient :: bool
  store :: remote_store
  trace :: "call list"

definition emit :: "call \<Rightarrow> world \<Rightarrow> world" where
  "emit c w = w\<lparr>trace := trace w @ [c]\<rparr>"

definition row_id :: "jsobj \<Rightarrow> jsval" where
  "row_id row = obj_get row ''id''"

text \<open>Whether a call settled without error, and the rows a successful insert returned.\<close>

definition settled_ok :: "'a reply \<Rightarrow> bool" where
  "settled_ok r = (case r of Settled None _ \<Rightarrow> True | _ \<Rightarrow> False)"

definition stored_rows :: "jsobj list option reply \<Rightarrow> jsobj list" where
  "stored_rows r = (case r of Settled None (Some rows) \<Rightarrow> rows | _ \<Rightarrow> [])"

definition storage_upload :: "env \<Rightarrow> jsstring \<Rightarrow> js_file \<Rightarrow> world \<Rightarrow> unit reply \<times> world" where
  "storage_upload e p f w =
     (storage_upload_reply e,
      (emit (StorageUpload p f) w)\<lparr>store :=
         (if settled_ok (storage_upload_reply e)
          then (store w)\<lparr>bucket := bucket (store w) @ [(p, f)]\<rparr>
          else store w)\<rparr>)"

definition storage_remove :: "env \<Rightarrow> jsval \<Rightarrow> world \<Rightarrow> unit reply \<times> world" where
  "storage_remove e p w =
     (storage_remove_reply e,
      (emit (StorageRemove p) w)\<lparr>store :=
         (if settled_ok (storage_remove_reply e)
          then (store w)\<lparr>bucket := filter (\<lambda>ob. JStr (fst ob) \<noteq> p) (bucket (store w))\<rparr>
          else store w)\<rparr>)"

definition documents_insert ::
  "env \<Rightarrow> jsobj \<Rightarrow> world \<Rightarrow> jsobj list option reply \<times> world" where
  "documents_insert e row w =
     (documents_insert_reply e,
      (emit (DocumentsInsert row) w)\<lparr>store :=
         (store w)\<lparr>documents_table :=
            documents_table (store w) @ stored_rows (documents_insert_reply e)\<rparr>\<rparr>)"

definition documents_delete :: "env \<Rightarrow> jsval \<Rightarrow> world \<Rightarrow> unit reply \<times> world" where
  "documents_delete e i w =
     (documents_delete_reply e,
      (emit (DocumentsDelete i) w)\<lparr>store :=
         (if settled_ok (documents_delete_reply e)
          then (store w)\<lparr>documents_table :=
                  filter (\<lambda>r. row_id r \<noteq> i) (documents_table (store w))\<rparr>
          else store w)\<rparr>)"

definition analyses_insert ::
  "env \<Rightarrow> jsobj \<Rightarrow> world \<Rightarrow> jsobj list option reply \<times> world" where
  "analyses_insert e row w =
     (analyses_insert_reply e,
      (emit (AnalysesInsert row) w)\<lparr>store :=
         (store w)\<lparr>analyses_table :=
            analyses_table (store w) @ stored_rows (analyses_insert_reply e)\<rparr>\<rparr>)"

definition analyses_delete :: "env \<Rightarrow> jsval \<Rightarrow> world \<Rightarrow> unit reply \<times> world" where
  "analyses_delete e i w =
     (analyses_delete_reply e,
      (emit (AnalysesDelete i) w)\<lparr>store :=
         (if settled_ok (analyses_delete_reply e)
          then (store w)\<lparr>analyses_table :=
                  filter (\<lambda>r. row_id r \<noteq> i) (analyses_table (store w))\<rparr>
          else store w)\<rparr>)"

text \<open>The calls made between two worlds of one run.\<close>

definition calls :: "world \<Rightarrow> world \<Rightarrow> call list" where
  "calls w w' = drop (length (trace w)) (trace w')"

section \<open>The browser client: operations\<close>

subsection \<open>The storage path of an uploaded file\<close>

text \<open>\<open>file.name.split('.').pop() || 'bin'\<close>\<close>

definition fileExt :: "jsstring \<Rightarrow> jsstring" where
  "fileExt n =
     (let e = rev (takeWhile (\<lambda>c. c \<noteq> 0x2E) (rev n)) in if e = [] then lit ''bin'' else e)"

text \<open>
  \<open>file.name.replace(/\.[^/.]+$/, '')\<close>: the leftmost dot that is followed, up to the
  end of the name, by one or more characters other than a slash and a dot, is removed
  together with what follows it.
\<close>

fun fileNameWithoutExt :: "jsstring \<Rightarrow> jsstring" where
  "fileNameWithoutExt [] = []"
| "fileNameWithoutExt (c # cs) =
     (if c = 0x2E \<and> cs \<noteq> [] \<and> (\<forall>d \<in> set cs. d \<noteq> 0x2F \<and> d \<noteq> 0x2E) then []
      else c # fileNameWithoutExt cs)"

text \<open>\<open>.replace(/[^a-z0-9]/gi, '_').toLowerCase()\<close>\<close>

definition safe_char :: "16 word \<Rightarrow> 16 word" where
  "safe_char c =
     (if (0x30 \<le> c \<and> c \<le> 0x39) \<or> (0x61 \<le> c \<and> c \<le> 0x7A) then c
      else if 0x41 \<le> c \<and> c \<le> 0x5A then c + 0x20
      else 0x5F)"

definition safeFileName :: "jsstring \<Rightarrow> jsstring" where
  "safeFileName n = map safe_char (fileNameWithoutExt n)"

definition filePath :: "nat \<Rightarrow> jsstring \<Rightarrow> jsstring" where
  "filePath timestamp n =
     lit ''uploads/'' @ dec timestamp @ lit ''-'' @ safeFileName n @ lit ''.'' @ fileExt n"

subsection \<open>uploadToDatabase\<close>

record upload_result =
  res_id :: jsval
  res_url :: jsstring
  res_path :: jsstring

definition not_initialized :: js_error where
  "not_initialized = lit ''Supabase not initialized''"

definition uploadToDatabase ::
  "env \<Rightarrow> js_file \<Rightarrow> world \<Rightarrow> (js_error + upload_result) \<times> world" where
  "uploadToDatabase e file w =
     (if \<not> supabaseInitialized w \<or> \<not> supabaseClient w then (Inl not_initialized, w)
      else
        let p = filePath (date_now e) (file_name file) in
        case storage_upload e p file w of
          (Rejected uploadError, w1) \<Rightarrow> (Inl uploadError, w1)
        | (Settled (Some uploadError) _, w1) \<Rightarrow> (Inl uploadError, w1)
        | (Settled None _, w1) \<Rightarrow>
           (let publicUrl = public_url e p;
                documentData =
                  [(''filename'', JStr (file_name file)),
                   (''file_size'', JNum (int (file_size file))),
                   (''file_type'',
                      js_or (JStr (file_type file)) (JStr (lit ''application/octet-stream''))),
                   (''file_url'', JStr publicUrl),
                   (''storage_path'', JStr p),
                   (''uploaded_at'', JStr (iso_now e))]
            in
            case documents_insert e documentData w1 of
              (Rejected dbError, w2) \<Rightarrow> (Inl dbError, w2)
            | (Settled (Some dbError) _, w2) \<Rightarrow> (Inl dbError, w2)
            | (Settled None None, w2) \<Rightarrow>
                (Inl (lit ''No data returned from documents insert''), w2)
            | (Settled None (Some []), w2) \<Rightarrow>
                (Inl (lit ''No data returned from documents insert''), w2)
            | (Settled None (Some (row # _)), w2) \<Rightarrow>
                (Inr \<lparr>res_id = row_id row, res_url = publicUrl, res_path = p\<rparr>, w2)))"

subsection \<open>saveAnalysisToDatabase and saveTextAnalysisToDatabase\<close>

definition analysisText :: "env \<Rightarrow> jsobj \<Rightarrow> jsval" where
  "analysisText e analysisData =
     (if truthy (obj_get analysisData ''analysis'') then obj_get analysisData ''analysis''
      else if truthy (obj_get analysisData ''ai_analysis'')
        then obj_get analysisData ''ai_analysis''
      else if truthy (obj_get analysisData ''text'') then obj_get analysisData ''text''
      else JStr (stringify e analysisData))"

definition insertData :: "env \<Rightarrow> jsobj \<Rightarrow> jsval \<Rightarrow> jsobj" where
  "insertData e analysisData fileId =
     [(''document_id'', fileId),
      (''filename'', js_or (obj_get analysisData ''filename'') (JStr (lit ''Document Analysis''))),
      (''file_size'', js_or (obj_get analysisData ''file_size'') (JNum 0)),
      (''text_length'',
         js_or (obj_get analysisData ''text_length'') (js_length (analysisText e analysisData))),
      (''analysis'', analysisText e analysisData),
      (''analysis_type'', JStr (if truthy fileId then lit ''document'' else lit ''text'')),
      (''created_at'', JStr (iso_now e))]"

definition saveAnalysisToDatabase ::
  "env \<Rightarrow> jsobj \<Rightarrow> jsval \<Rightarrow> world \<Rightarrow> (js_error + jsobj) \<times> world" where
  "saveAnalysisToDatabase e analysisData fileId w =
     (if \<not> supabaseInitialized w \<or> \<not> supabaseClient w then (Inl not_initialized, w)
      else
        case analyses_insert e (insertData e analysisData fileId) w of
          (Rejected err, w1) \<Rightarrow> (Inl err, w1)
        | (Settled (Some err) _, w1) \<Rightarrow> (Inl err, w1)
        | (Settled None None, w1) \<Rightarrow>
            (Inl (lit ''No data returned from analyses insert''), w1)
        | (Settled None (Some []), w1) \<Rightarrow>
            (Inl (lit ''No data returned from analyses insert''), w1)
        | (Settled None (Some (row # _)), w1) \<Rightarrow> (Inr row, w1))"

text \<open>
  \<open>saveTextAnalysisToDatabase\<close> assigns to three properties of its argument
  \<open>analysisData\<close>, which is the caller's \<open>result\<close> object; the object as it stands at
  the end is returned with the outcome.
\<close>

definition textDocument :: "env \<Rightarrow> jsstring \<Rightarrow> jsobj" where
  "textDocument e originalText =
     [(''filename'', JStr (lit ''text-input-'' @ dec (date_now e) @ lit ''.txt'')),
      (''file_size'', JNum (int (blob_size originalText))),
      (''file_type'', JStr (lit ''text/plain'')),
      (''text_content'', JStr originalText),
      (''uploaded_at'', JStr (iso_now e))]"

definition saveTextAnalysisToDatabase ::
  "env \<Rightarrow> jsobj \<Rightarrow> jsstring \<Rightarrow> world \<Rightarrow> (js_error + jsobj) \<times> jsobj \<times> world" where
  "saveTextAnalysisToDatabase e analysisData originalText w =
     (if \<not> supabaseInitialized w \<or> \<not> supabaseClient w
      then (Inl not_initialized, analysisData, w)
      else
        case documents_insert e (textDocument e originalText) w of
          (Rejected docError, w1) \<Rightarrow> (Inl docError, analysisData, w1)
        | (Settled (Some docError) _, w1) \<Rightarrow> (Inl docError, analysisData, w1)
        | (Settled None None, w1) \<Rightarrow>
            (Inl (lit ''No data returned from documents insert''), analysisData, w1)
        | (Settled None (Some []), w1) \<Rightarrow>
            (Inl (lit ''No data returned from documents insert''), analysisData, w1)
        | (Settled None (Some (textDoc # _)), w1) \<Rightarrow>
           (let a1 = obj_set analysisData ''filename'' (obj_get textDoc ''filename'');
                a2 = obj_set a1 ''file_size'' (obj_get textDoc ''file_size'');
                a3 = obj_set a2 ''text_length'' (JNum (int (length originalText)))
            in
            case saveAnalysisToDatabase e a3 (row_id textDoc) w1 of
              (r, w2) \<Rightarrow> (r, a3, w2)))"

subsection \<open>deleteAllRecords\<close>

record delete_results =
  storage :: bool
  documents :: bool
  analyses :: bool

text \<open>
  Each of the three steps is guarded by the truthiness of its argument and has its own
  \<open>try\<close>/\<open>catch\<close>: a rejected call is logged and the step's flag stays \<open>false\<close>.
\<close>

definition delete_storage_step ::
  "env \<Rightarrow> jsval \<Rightarrow> delete_results \<times> world \<Rightarrow> delete_results \<times> world" where
  "delete_storage_step e storagePath rw =
     (case rw of (results, w) \<Rightarrow>
        if truthy storagePath then
          (case storage_remove e storagePath w of
             (Settled None _, w1) \<Rightarrow> (results\<lparr>storage := True\<rparr>, w1)
           | (_, w1) \<Rightarrow> (results, w1))
        else (results, w))"

definition delete_analysis_step ::
  "env \<Rightarrow> jsval \<Rightarrow> delete_results \<times> world \<Rightarrow> delete_results \<times> world" where
  "delete_analysis_step e analysisId rw =
     (case rw of (results, w) \<Rightarrow>
        if truthy analysisId then
          (case analyses_delete e analysisId w of
             (Settled None _, w1) \<Rightarrow> (results\<lparr>analyses := True\<rparr>, w1)
           | (_, w1) \<Rightarrow> (results, w1))
        else (results, w))"

definition delete_document_step ::
  "env \<Rightarrow> jsval \<Rightarrow> delete_results \<times> world \<Rightarrow> delete_results \<times> world" where
  "delete_document_step e fileId rw =
     (case rw of (results, w) \<Rightarrow>
        if truthy fileId then
          (case documents_delete e fileId w of
             (Settled None _, w1) \<Rightarrow> (results\<lparr>documents := True\<rparr>, w1)
           | (_, w1) \<Rightarrow> (results, w1))
        else (results, w))"

definition deleteAllRecords ::
  "env \<Rightarrow> jsval \<Rightarrow> jsval \<Rightarrow> jsval \<Rightarrow> world \<Rightarrow> (js_error + delete_results) \<times> world" where
  "deleteAllRecords e fileId analysisId storagePath w =
     (if \<not> supabaseInitialized w \<or> \<not> supabaseClient w then (Inl not_initialized, w)
      else
        case delete_document_step e fileId
               (delete_analysis_step e analysisId
                  (delete_storage_step e storagePath
                     (\<lparr>storage = False, documents = False, analyses = False\<rparr>, w))) of
          (results, w1) \<Rightarrow> (Inr results, w1))"

subsection \<open>uploadFile (analyze-by-file)\<close>

definition toast_error :: "jsstring \<Rightarrow> call" where
  "toast_error m = ShowToast (JStr m) ToastError"

definition toast_success :: "jsstring \<Rightarrow> call" where
  "toast_success m = ShowToast (JStr m) ToastSuccess"

text \<open>
  Step 1: the values of \<open>fileUrl\<close>, \<open>dbFileId\<close> and \<open>storagePath\<close> after the upload to
  the remote store was tried, or skipped.
\<close>

definition uploadFile_step1 ::
  "env \<Rightarrow> js_file \<Rightarrow> world \<Rightarrow> (jsval \<times> jsval \<times> jsval) \<times> world" where
  "uploadFile_step1 e file w =
     (if supabaseInitialized w then
        (case uploadToDatabase e file w of
           (Inr dbResult, w1) \<Rightarrow>
             ((JStr (res_url dbResult), res_id dbResult, JStr (res_path dbResult)), w1)
         | (Inl dbError, w1) \<Rightarrow>
             ((JNull, JNull, JNull),
              emit (toast_error (lit ''Database upload failed: '' @ dbError)) w1))
      else ((JNull, JNull, JNull), w))"

text \<open>The list \<open>deletedItems\<close> has one entry for each flag that is set.\<close>

definition deletedItems_length :: "delete_results \<Rightarrow> nat" where
  "deletedItems_length r =
     (if storage r then 1 else 0) + (if documents r then 1 else 0) +
     (if analyses r then 1 else 0)"

definition strip_remote_ids :: "jsobj \<Rightarrow> jsobj" where
  "strip_remote_ids result =
     obj_delete (obj_delete (obj_delete (obj_delete result ''db_file_id'') ''analysis_db_id'')
       ''file_url'') ''storage_path''"

text \<open>
  The body of the inner \<open>try\<close> block: save the analysis, wait, delete, strip the ids.
  It yields the error it threw, if any, and \<open>result\<close> as it was left.
\<close>

definition uploadFile_save_and_cleanup ::
  "env \<Rightarrow> jsobj \<Rightarrow> jsval \<Rightarrow> jsval \<Rightarrow> world \<Rightarrow> (js_error option \<times> jsobj) \<times> world" where
  "uploadFile_save_and_cleanup e result dbFileId storagePath w =
     (case saveAnalysisToDatabase e result dbFileId w of
        (Inl analysisError, w1) \<Rightarrow> ((Some analysisError, result), w1)
      | (Inr savedAnalysis, w1) \<Rightarrow>
         (let result1 = obj_set result ''analysis_db_id'' (row_id savedAnalysis);
              analysisDbId = row_id savedAnalysis;
              w2 = emit (Delay 1000) w1
          in
          case deleteAllRecords e dbFileId analysisDbId storagePath w2 of
            (Inl analysisError, w3) \<Rightarrow> ((Some analysisError, result1), w3)
          | (Inr deleteResults, w3) \<Rightarrow>
              ((None, strip_remote_ids result1),
               if deletedItems_length deleteResults > 0 then
                 emit (toast_success (lit ''Analysis complete - '' @
                         dec (deletedItems_length deleteResults) @ lit '' items cleaned up'')) w3
               else w3)))"

text \<open>
  The branch taken when the API answered with \<open>response.ok\<close>.
\<close>

definition uploadFile_ok ::
  "env \<Rightarrow> jsobj \<Rightarrow> jsval \<Rightarrow> jsval \<Rightarrow> jsval \<Rightarrow> world \<Rightarrow> world" where
  "uploadFile_ok e result fileUrl dbFileId storagePath w =
     (let result1 =
            (if truthy dbFileId then
               obj_set (obj_set (obj_set result ''db_file_id'' dbFileId) ''file_url'' fileUrl)
                 ''storage_path'' storagePath
             else result);
          rw =
            (if supabaseInitialized w \<and> truthy dbFileId then
               (case uploadFile_save_and_cleanup e result1 dbFileId storagePath w of
                  ((None, result2), w1) \<Rightarrow> (result2, w1)
                | ((Some analysisError, result2), w1) \<Rightarrow>
                    (result2,
                     emit (toast_error (lit ''Analysis save failed: '' @ analysisError)) w1))
             else (result1, w))
      in emit ClearFile (emit HideLoading (emit (ShowResults (fst rw)) (snd rw))))"

text \<open>
  \<open>fileInput\<close> is \<open>None\<close> when the input element or its \<open>files\<close> list is missing,
  and otherwise the list of selected files. The first entry of a non-empty list is a
  file, so the check \<open>!file\<close> that follows in the source never fires.
\<close>

definition uploadFile :: "env \<Rightarrow> js_file list option \<Rightarrow> world \<Rightarrow> world" where
  "uploadFile e fileInput w =
     (case fileInput of
        None \<Rightarrow> emit (toast_error (lit ''Please select a file first'')) w
      | Some [] \<Rightarrow> emit (toast_error (lit ''Please select a file first'')) w
      | Some (file # _) \<Rightarrow>
          if file_size file > 10 * 1024 * 1024 then
            emit (toast_error (lit ''File too large. Maximum size is 10MB.'')) w
          else
            (case uploadFile_step1 e file (emit ShowLoading w) of
               ((fileUrl, dbFileId, storagePath), w1) \<Rightarrow>
                 (let w2 = emit (ApiUpload file) w1 in
                  case api_answer e of
                    ApiFailed error \<Rightarrow>
                      emit (toast_error (lit ''Network error: '' @ error)) (emit HideLoading w2)
                  | ApiResponse ok result \<Rightarrow>
                      if ok then uploadFile_ok e result fileUrl dbFileId storagePath w2
                      else
                        emit (ShowToast (js_or (obj_get result ''error'')
                                (JStr (lit ''Upload failed''))) ToastError)
                          (emit HideLoading w2))))"

subsection \<open>analyzeText (analyze-by-text)\<close>

text \<open>
  The body of the inner \<open>try\<close> block of \<open>analyzeText\<close>. The two deletions are awaited
  without looking at the \<open>error\<close> they settle with; only a rejection throws.
\<close>

definition analyzeText_save_and_cleanup ::
  "env \<Rightarrow> jsobj \<Rightarrow> jsstring \<Rightarrow> world \<Rightarrow> (js_error option \<times> jsobj) \<times> world" where
  "analyzeText_save_and_cleanup e result text w =
     (case saveTextAnalysisToDatabase e result text w of
        (Inl analysisError, result0, w1) \<Rightarrow> ((Some analysisError, result0), w1)
      | (Inr savedAnalysis, result0, w1) \<Rightarrow>
         (let result1 = obj_set result0 ''analysis_db_id'' (row_id savedAnalysis);
              w2 = emit (Delay 1000) w1
          in
          if truthy (obj_get savedAnalysis ''document_id'') then
            (case analyses_delete e (row_id savedAnalysis) w2 of
               (Rejected analysisError, w3) \<Rightarrow> ((Some analysisError, result1), w3)
             | (Settled _ _, w3) \<Rightarrow>
                 (case documents_delete e (obj_get savedAnalysis ''document_id'') w3 of
                    (Rejected analysisError, w4) \<Rightarrow> ((Some analysisError, result1), w4)
                  | (Settled _ _, w4) \<Rightarrow>
                      ((None, obj_delete result1 ''analysis_db_id''),
                       emit (toast_success (lit ''Analysis complete - records cleaned up'')) w4)))
          else ((None, obj_delete result1 ''analysis_db_id''), w2)))"

definition analyzeText_ok :: "env \<Rightarrow> jsobj \<Rightarrow> jsstring \<Rightarrow> world \<Rightarrow> world" where
  "analyzeText_ok e result text w =
     (let rw =
            (if supabaseInitialized w then
               (case analyzeText_save_and_cleanup e result text w of
                  ((None, result2), w1) \<Rightarrow> (result2, w1)
                | ((Some analysisError, result2), w1) \<Rightarrow>
                    (result2,
                     emit (toast_error (lit ''Text analysis save failed: '' @ analysisError)) w1))
             else (result, w))
      in emit HideLoading (emit (ShowResults (fst rw)) (snd rw)))"

text \<open>
  \<open>medicalText\<close> is \<open>None\<close> when the text area is missing, and otherwise its value.
\<close>

definition analyzeText :: "env \<Rightarrow> jsstring option \<Rightarrow> world \<Rightarrow> world" where
  "analyzeText e medicalText w =
     (case medicalText of
        None \<Rightarrow> emit (toast_error (lit ''Text area not found'')) w
      | Some v \<Rightarrow>
         (let text = trim v in
          if text = [] then emit (toast_error (lit ''Please enter some medical text'')) w
          else
            (let w1 = emit (ApiText (substring0 text 3000)) (emit ShowLoading w) in
             case api_answer e of
               ApiFailed error \<Rightarrow>
                 emit (toast_error (lit ''Network error: '' @ error)) (emit HideLoading w1)
             | ApiResponse ok result \<Rightarrow>
                 if ok then analyzeText_ok e result text w1
                 else
                   emit (ShowToast (js_or (obj_get result ''error'')
                           (JStr (lit ''Analysis failed''))) ToastError)
                     (emit HideLoading w1))))"

section \<open>The service worker\<close>

text \<open>
  A request is identified by its absolute URL and carries its mode; a cache maps URLs
  to responses (the requests it is asked to store are \<open>GET\<close> requests), and the cache
  storage is the list of named caches in creation order.
\<close>

datatype request_mode = Navigate | SameOrigin | NoCors | Cors

datatype response_type = Basic | CorsResponse | Opaque | OpaqueRedirect | ErrorResponse

record request =
  req_url :: string
  req_mode :: request_mode

record response =
  status :: nat
  rtype :: response_type
  body :: string

type_synonym cache = "(string \<times> response) list"

type_synonym cache_storage = "(string \<times> cache) list"

definition CACHE_NAME :: string where
  "CACHE_NAME = ''meddoc-ai-v1''"

text \<open>\<open>s.includes(t)\<close>\<close>

fun starts_with :: "string \<Rightarrow> string \<Rightarrow> bool" where
  "starts_with s [] = True"
| "starts_with [] (c # t) = False"
| "starts_with (d # s) (c # t) = (d = c \<and> starts_with s t)"

fun js_includes :: "string \<Rightarrow> string \<Rightarrow> bool" where
  "js_includes [] t = (t = [])"
| "js_includes (d # s) t = (starts_with (d # s) t \<or> js_includes s t)"

text \<open>\<open>caches.match\<close> asks the caches in creation order and yields the first entry.\<close>

fun caches_match :: "cache_storage \<Rightarrow> string \<Rightarrow> response option" where
  "caches_match [] u = None"
| "caches_match ((n, c) # cs) u =
     (case map_of c u of Some r \<Rightarrow> Some r | None \<Rightarrow> caches_match cs u)"

fun cache_put_entry :: "cache \<Rightarrow> string \<Rightarrow> response \<Rightarrow> cache" where
  "cache_put_entry [] u r = [(u, r)]"
| "cache_put_entry ((u', r') # c) u r =
     (if u' = u then (u, r) # c else (u', r') # cache_put_entry c u r)"

text \<open>\<open>caches.open(n).then(cache => cache.put(u, r))\<close>; \<open>open\<close> creates a missing cache.\<close>

fun caches_open_put :: "cache_storage \<Rightarrow> string \<Rightarrow> string \<Rightarrow> response \<Rightarrow> cache_storage" where
  "caches_open_put [] n u r = [(n, [(u, r)])]"
| "caches_open_put ((n', c) # cs) n u r =
     (if n' = n then (n, cache_put_entry c u r) # cs else (n', c) # caches_open_put cs n u r)"

text \<open>
  What the promise handed to \<open>respondWith\<close> settles to: a response, \<open>undefined\<close>
  (a cache miss), or a rejection.
\<close>

datatype settled = Fulfilled "response option" | RejectedPromise

text \<open>
  A \<open>FetchEvent\<close>: its request and, once \<open>respondWith\<close> has been entered, the promise
  it was given. A call of \<open>respondWith\<close> on an event that has been responded to throws
  \<open>InvalidStateError\<close> and leaves the event as it is. A successful call also stops the
  propagation of the event: listeners registered later are not invoked.
\<close>

record fetch_event =
  ev_request :: request
  ev_responded :: "settled option"

datatype dom_exception = InvalidStateError

definition respondWith :: "fetch_event \<Rightarrow> settled \<Rightarrow> dom_exception option \<times> fetch_event" where
  "respondWith ev p =
     (case ev_responded ev of
        None \<Rightarrow> (None, ev\<lparr>ev_responded := Some p\<rparr>)
      | Some _ \<Rightarrow> (Some InvalidStateError, ev))"

text \<open>
  The worker's state: the cache storage and the network fetches it has issued. The
  network is a function that yields the response to a request, or \<open>None\<close> when the
  fetch fails.
\<close>

record sw_state =
  caches :: cache_storage
  fetched :: "request list"

definition sw_fetch :: "request \<Rightarrow> sw_state \<Rightarrow> sw_state" where
  "sw_fetch r s = s\<lparr>fetched := fetched s @ [r]\<rparr>"

text \<open>The first \<open>fetch\<close> listener: network-first for API calls, cache-first otherwise.\<close>

definition fetch_listener_routing ::
  "(request \<Rightarrow> response option) \<Rightarrow> fetch_event \<times> sw_state \<Rightarrow>
   dom_exception option \<times> fetch_event \<times> sw_state" where
  "fetch_listener_routing net evs =
     (case evs of (ev, s) \<Rightarrow>
        let r = ev_request ev in
        if js_includes (req_url r) ''/api/'' then
          (case respondWith ev
                  (case net r of
                     Some resp \<Rightarrow> Fulfilled (Some resp)
                   | None \<Rightarrow> Fulfilled (caches_match (caches s) (req_url r))) of
             (x, ev1) \<Rightarrow> (x, ev1, sw_fetch r s))
        else
          (case caches_match (caches s) (req_url r) of
             Some resp \<Rightarrow> (case respondWith ev (Fulfilled (Some resp)) of (x, ev1) \<Rightarrow> (x, ev1, s))
           | None \<Rightarrow>
              (case net r of
                 None \<Rightarrow> (case respondWith ev RejectedPromise of (x, ev1) \<Rightarrow> (x, ev1, sw_fetch r s))
               | Some resp \<Rightarrow>
                  (case respondWith ev (Fulfilled (Some resp)) of
                     (x, ev1) \<Rightarrow>
                       if status resp \<noteq> 200 \<or> rtype resp \<noteq> Basic then (x, ev1, sw_fetch r s)
                       else
                         (x, ev1,
                          (sw_fetch r s)\<lparr>caches :=
                             caches_open_put (caches s) CACHE_NAME (req_url r) resp\<rparr>)))))"

text \<open>
  The second \<open>fetch\<close> listener, registered after the first. \<open>root\<close> is the URL that
  \<open>'/'\<close> resolves to. The argument of \<open>respondWith\<close> is evaluated before the call, so
  the fetch is issued even when the call throws.
\<close>

definition fetch_listener_navigate ::
  "(request \<Rightarrow> response option) \<Rightarrow> string \<Rightarrow> fetch_event \<times> sw_state \<Rightarrow>
   dom_exception option \<times> fetch_event \<times> sw_state" where
  "fetch_listener_navigate net root evs =
     (case evs of (ev, s) \<Rightarrow>
        let r = ev_request ev in
        if req_mode r = Navigate then
          (case respondWith ev
                  (case net r of
                     Some resp \<Rightarrow> Fulfilled (Some resp)
                   | None \<Rightarrow> Fulfilled (caches_match (caches s) root)) of
             (x, ev1) \<Rightarrow> (x, ev1, sw_fetch r s))
        else (None, ev, s))"

text \<open>
  What the page receives for the event: the response the promise is fulfilled with, a
  network error when the promise rejects or is fulfilled with \<open>undefined\<close>, and the
  browser's own fetch when no listener responded.
\<close>

datatype served = Served response | NetworkError

definition serve :: "(request \<Rightarrow> response option) \<Rightarrow> fetch_event \<Rightarrow> served" where
  "serve net ev =
     (case ev_responded ev of
        Some (Fulfilled (Some resp)) \<Rightarrow> Served resp
      | Some (Fulfilled None) \<Rightarrow> NetworkError
      | Some RejectedPromise \<Rightarrow> NetworkError
      | None \<Rightarrow> (case net (ev_request ev) of Some resp \<Rightarrow> Served resp | None \<Rightarrow> NetworkError))"

text \<open>
  Dispatching a fetch event runs the listeners in the order of their registration,
  until one of them has called \<open>respondWith\<close>; an exception thrown by a listener is
  reported and does not stop the next one.
\<close>

record dispatch_result =
  page_gets :: served
  thrown :: "dom_exception list"
  state_after :: sw_state

definition exn_list :: "dom_exception option \<Rightarrow> dom_exception list" where
  "exn_list x = (case x of None \<Rightarrow> [] | Some d \<Rightarrow> [d])"

definition dispatch_fetch ::
  "(request \<Rightarrow> response option) \<Rightarrow> string \<Rightarrow> request \<Rightarrow> sw_state \<Rightarrow> dispatch_result" where
  "dispatch_fetch net root r s =
     (case fetch_listener_routing net (\<lparr>ev_request = r, ev_responded = None\<rparr>, s) of
        (x1, ev1, s1) \<Rightarrow>
          if ev_responded ev1 \<noteq> None then
            \<lparr>page_gets = serve net ev1, thrown = exn_list x1, state_after = s1\<rparr>
          else
            (case fetch_listener_navigate net root (ev1, s1) of
               (x2, ev2, s2) \<Rightarrow>
                 \<lparr>page_gets = serve net ev2, thrown = exn_list x1 @ exn_list x2,
                  state_after = s2\<rparr>))"

section \<open>Notions used in the statements\<close>

text \<open>
  The deletions \<open>deleteAllRecords\<close> attempts for its three arguments, in the order it
  attempts them: a step is present when its argument is truthy.
\<close>

definition deletion_calls :: "jsval \<Rightarrow> jsval \<Rightarrow> jsval \<Rightarrow> call list" where
  "deletion_calls fileId analysisId storagePath =
     (if truthy storagePath then [StorageRemove storagePath] else []) @
     (if truthy analysisId then [AnalysesDelete analysisId] else []) @
     (if truthy fileId then [DocumentsDelete fileId] else [])"

fun is_show_results :: "call \<Rightarrow> bool" where
  "is_show_results (ShowResults _) = True"
| "is_show_results _ = False"

text \<open>An insert succeeded for its caller: no error, and at least one row came back.\<close>

definition insert_ok :: "jsobj list option reply \<Rightarrow> bool" where
  "insert_ok r = (case r of Settled None (Some (row # rows)) \<Rightarrow> True | _ \<Rightarrow> False)"

text \<open>
  The cleanup part of one run of \<open>uploadFile\<close>: either there is none, or the analysis
  row was inserted, the delay is followed by the deletions, and the one result that is
  shown has had the remote ids stripped.
\<close>

definition cleanup_shape :: "env \<Rightarrow> call list \<Rightarrow> bool" where
  "cleanup_shape e cs =
     (filter is_cleanup cs = [] \<or>
      (\<exists>fid aid sp r0. truthy fid \<and> truthy sp \<and> insert_ok (analyses_insert_reply e) \<and>
         filter is_cleanup cs = Delay 1000 # deletion_calls fid aid sp \<and>
         filter is_show_results cs = [ShowResults (strip_remote_ids r0)]))"

text \<open>
  What a call made by \<open>analyzeText\<close> must satisfy for the full text to be persisted:
  an inserted document row carries the text, an inserted analysis row its length.
\<close>

definition persists_text :: "jsstring \<Rightarrow> call \<Rightarrow> bool" where
  "persists_text text c =
     (case c of
        DocumentsInsert row \<Rightarrow> obj_get row ''text_content'' = JStr text
      | AnalysesInsert row \<Rightarrow> obj_get row ''text_length'' = JNum (int (length text))
      | _ \<Rightarrow> True)"

text \<open>
  The persistence part of one run of \<open>analyzeText\<close>: every call persists the text and
  none goes to the API; with persistence enabled the document row is inserted, and the
  analysis row too once the document insert succeeded.
\<close>

definition text_shape :: "env \<Rightarrow> world \<Rightarrow> jsstring \<Rightarrow> call list \<Rightarrow> bool" where
  "text_shape e w text cs =
     ((\<forall>c \<in> set cs. persists_text text c \<and> \<not> is_api c) \<and>
      (supabaseInitialized w \<and> supabaseClient w \<longrightarrow>
         DocumentsInsert (textDocument e text) \<in> set cs \<and>
         (insert_ok (documents_insert_reply e) \<longrightarrow> (\<exists>row. AnalysesInsert row \<in> set cs))))"

section \<open>Example inputs\<close>

definition sample_file :: js_file where
  "sample_file = \<lparr>file_name = lit ''x.pdf'', file_size = 5 * 1024 * 1024,
                   file_type = lit ''application/pdf''\<rparr>"

definition big_file :: js_file where
  "big_file = \<lparr>file_name = lit ''scan.pdf'', file_size = 10 * 1024 * 1024 + 1,
                file_type = lit ''application/pdf''\<rparr>"

definition sample_result :: jsobj where
  "sample_result = [(''analysis'', JStr (lit ''OK'')), (''filename'', JStr (lit ''x.pdf''))]"

definition sample_document_row :: jsobj where
  "sample_document_row = [(''id'', JNum 7)]"

definition sample_analysis_row :: jsobj where
  "sample_analysis_row = [(''id'', JNum 9), (''document_id'', JNum 7)]"

text \<open>Every remote call succeeds.\<close>

definition env_ok :: env where
  "env_ok = \<lparr>date_now = 1700000000000, iso_now = lit ''2024-02-09T10:00:00.000Z'',
     public_url = (\<lambda>p. lit ''https://store.example/'' @ p),
     stringify = (\<lambda>obj. lit ''{}''),
     storage_upload_reply = Settled None (),
     documents_insert_reply = Settled None (Some [sample_document_row]),
     api_answer = ApiResponse True sample_result,
     analyses_insert_reply = Settled None (Some [sample_analysis_row]),
     storage_remove_reply = Settled None (),
     analyses_delete_reply = Settled None (),
     documents_delete_reply = Settled None ()\<rparr>"

text \<open>The insert into \<open>analyses\<close> is refused; everything else succeeds.\<close>

definition env_save_fails :: env where
  "env_save_fails =
     env_ok\<lparr>analyses_insert_reply := Settled (Some (lit ''permission denied'')) None\<rparr>"

text \<open>The upload to the storage is refused; everything else succeeds.\<close>

definition env_upload_fails :: env where
  "env_upload_fails =
     env_ok\<lparr>storage_upload_reply := Settled (Some (lit ''bucket not found'')) ()\<rparr>"

text \<open>The removal of the storage object rejects; everything else succeeds.\<close>

definition env_remove_rejects :: env where
  "env_remove_rejects = env_ok\<lparr>storage_remove_reply := Rejected (lit ''offline'')\<rparr>"

text \<open>Persistence is enabled, the remote store is empty, nothing has been called.\<close>

definition world_ready :: world where
  "world_ready = \<lparr>supabaseInitialized = True, supabaseClient = True,
     store = \<lparr>bucket = [], documents_table = [], analyses_table = []\<rparr>, trace = []\<rparr>"

text \<open>A text of 3001 letters.\<close>

definition long_text :: jsstring where
  "long_text = replicate 3001 0x41"

text \<open>
  The worker after installation, with the root document in the current cache; a
  navigation to a page that is not cached; a script that is not cached; a network
  that is down, one that answers every request with a same-origin 200 response, and
  one that answers with an opaque response.
\<close>

definition root_url :: string where
  "root_url = ''https://app.example/''"

definition root_document :: response where
  "root_document = \<lparr>status = 200, rtype = Basic, body = ''<html>app shell</html>''\<rparr>"

definition sw_installed :: sw_state where
  "sw_installed = \<lparr>caches = [(CACHE_NAME, [(root_url, root_document)])], fetched = []\<rparr>"

definition history_navigation :: request where
  "history_navigation = \<lparr>req_url = ''https://app.example/history'', req_mode = Navigate\<rparr>"

definition script_request :: request where
  "script_request = \<lparr>req_url = ''https://app.example/static/js/app.js'', req_mode = NoCors\<rparr>"

definition script_response :: response where
  "script_response = \<lparr>status = 200, rtype = Basic, body = ''console.log(1)''\<rparr>"

definition opaque_response :: response where
  "opaque_response = \<lparr>status = 0, rtype = Opaque, body = []\<rparr>"

definition offline :: "request \<Rightarrow> response option" where
  "offline r = None"

definition online :: "request \<Rightarrow> response option" where
  "online r = Some script_response"

definition online_opaque :: "request \<Rightarrow> response option" where
  "online_opaque r = Some opaque_response"

section \<open>Basic facts\<close>

lemma trace_emit [simp]: "trace (emit c w) = trace w @ [c]"
  by (simp add: emit_def)

lemma store_emit [simp]: "store (emit c w) = store w"
  by (simp add: emit_def)

lemma flags_emit [simp]:
  "supabaseInitialized (emit c w) = supabaseInitialized w"
  "supabaseClient (emit c w) = supabaseClient w"
  by (simp_all add: emit_def)

lemma calls_append: "trace w' = trace w @ cs \<Longrightarrow> calls w w' = cs"
  by (simp add: calls_def)

lemma filter_none: "(\<forall>c \<in> set cs. \<not> P c) \<Longrightarrow> filter P cs = []"
  by (induction cs) auto

lemma dropWhile_all_iff:
  "(\<forall>x \<in> set (dropWhile P xs). P x) \<longleftrightarrow> (\<forall>x \<in> set xs. P x)"
  by (induction xs) auto

lemma trim_empty_iff: "trim v = [] \<longleftrightarrow> (\<forall>c \<in> set v. is_js_space c)"
  by (simp add: trim_def dropWhile_eq_Nil_conv dropWhile_all_iff)

lemma is_deletion_cleanup: "is_deletion c \<Longrightarrow> is_cleanup c"
  by (cases c) simp_all

lemma filter_deletion_nil: "filter is_cleanup cs = [] \<Longrightarrow> filter is_deletion cs = []"
  by (auto simp: filter_empty_conv dest: is_deletion_cleanup)

lemma has_key_obj_delete [simp]:
  "has_key (obj_delete obj k) k' \<longleftrightarrow> k' \<noteq> k \<and> has_key obj k'"
  by (auto simp: has_key_def obj_delete_def)

lemma strip_remote_ids_keys:
  "\<not> has_key (strip_remote_ids r) ''db_file_id''"
  "\<not> has_key (strip_remote_ids r) ''analysis_db_id''"
  "\<not> has_key (strip_remote_ids r) ''file_url''"
  "\<not> has_key (strip_remote_ids r) ''storage_path''"
  by (simp_all add: strip_remote_ids_def)

lemma strip_remote_ids_filter:
  "strip_remote_ids r =
     filter (\<lambda>p. fst p \<notin> {''db_file_id'', ''analysis_db_id'', ''file_url'', ''storage_path''}) r"
  by (induction r) (auto simp: strip_remote_ids_def obj_delete_def)

lemma filter_obj_set:
  "k \<in> K \<Longrightarrow> filter (\<lambda>p. fst p \<notin> K) (obj_set r k v) = filter (\<lambda>p. fst p \<notin> K) r"
  by (induction r) auto

lemma strip_remote_ids_obj_set [simp]:
  "strip_remote_ids (obj_set r ''db_file_id'' v) = strip_remote_ids r"
  "strip_remote_ids (obj_set r ''analysis_db_id'' v) = strip_remote_ids r"
  "strip_remote_ids (obj_set r ''file_url'' v) = strip_remote_ids r"
  "strip_remote_ids (obj_set r ''storage_path'' v) = strip_remote_ids r"
  by (simp_all only: strip_remote_ids_filter) (rule filter_obj_set, simp)+

lemma filePath_nonempty [simp]: "filePath t n \<noteq> []"
  by (simp add: filePath_def lit_def)

lemmas run_defs = uploadFile_def uploadFile_step1_def uploadToDatabase_def uploadFile_ok_def
  uploadFile_save_and_cleanup_def saveAnalysisToDatabase_def deleteAllRecords_def
  delete_storage_step_def delete_analysis_step_def delete_document_step_def
  storage_upload_def storage_remove_def documents_insert_def documents_delete_def
  analyses_insert_def analyses_delete_def settled_ok_def stored_rows_def emit_def Let_def

section \<open>The calls of each operation\<close>

lemma delete_storage_step_eq:
  "delete_storage_step e sp (r, w) =
     (r\<lparr>storage := storage r \<or> (truthy sp \<and> settled_ok (storage_remove_reply e))\<rparr>,
      if truthy sp then snd (storage_remove e sp w) else w)"
  by (cases "storage_remove_reply e")
     (auto simp: delete_storage_step_def storage_remove_def settled_ok_def
           split: option.splits)

lemma delete_analysis_step_eq:
  "delete_analysis_step e aid (r, w) =
     (r\<lparr>analyses := analyses r \<or> (truthy aid \<and> settled_ok (analyses_delete_reply e))\<rparr>,
      if truthy aid then snd (analyses_delete e aid w) else w)"
  by (cases "analyses_delete_reply e")
     (auto simp: delete_analysis_step_def analyses_delete_def settled_ok_def
           split: option.splits)

lemma delete_document_step_eq:
  "delete_document_step e fid (r, w) =
     (r\<lparr>documents := documents r \<or> (truthy fid \<and> settled_ok (documents_delete_reply e))\<rparr>,
      if truthy fid then snd (documents_delete e fid w) else w)"
  by (cases "documents_delete_reply e")
     (auto simp: delete_document_step_def documents_delete_def settled_ok_def
           split: option.splits)

lemma deleteAllRecords_eq:
  assumes "supabaseInitialized w" "supabaseClient w"
  shows "fst (deleteAllRecords e fid aid sp w) =
           Inr \<lparr>storage = truthy sp \<and> settled_ok (storage_remove_reply e),
                documents = truthy fid \<and> settled_ok (documents_delete_reply e),
                analyses = truthy aid \<and> settled_ok (analyses_delete_reply e)\<rparr>"
    and "trace (snd (deleteAllRecords e fid aid sp w)) = trace w @ deletion_calls fid aid sp"
    and "supabaseInitialized (snd (deleteAllRecords e fid aid sp w))"
    and "supabaseClient (snd (deleteAllRecords e fid aid sp w))"
  using assms
  by (simp_all add: deleteAllRecords_def delete_storage_step_eq delete_analysis_step_eq
        delete_document_step_eq deletion_calls_def storage_remove_def analyses_delete_def
        documents_delete_def)


lemma toast_not [simp]:
  "\<not> is_cleanup (toast_error m)" "\<not> is_cleanup (toast_success m)"
  "\<not> is_deletion (toast_error m)" "\<not> is_deletion (toast_success m)"
  "\<not> is_show_results (toast_error m)" "\<not> is_show_results (toast_success m)"
  "\<not> is_api (toast_error m)" "\<not> is_api (toast_success m)"
  "\<not> is_network (toast_error m)" "\<not> is_network (toast_success m)"
  by (simp_all add: toast_error_def toast_success_def)

lemma uploadToDatabase_frame:
  "\<exists>cs. trace (snd (uploadToDatabase e f w)) = trace w @ cs \<and>
        (\<forall>c \<in> set cs. \<not> is_cleanup c \<and> \<not> is_show_results c \<and> \<not> is_api c)"
  "supabaseInitialized (snd (uploadToDatabase e f w)) = supabaseInitialized w"
  "supabaseClient (snd (uploadToDatabase e f w)) = supabaseClient w"
  by (auto simp: uploadToDatabase_def storage_upload_def documents_insert_def Let_def
           split: reply.splits option.splits list.splits)

lemma uploadToDatabase_Inr:
  "fst (uploadToDatabase e f w) = Inr res \<Longrightarrow>
     supabaseInitialized w \<and> supabaseClient w \<and> res_path res = filePath (date_now e) (file_name f)"
  by (auto simp: uploadToDatabase_def storage_upload_def documents_insert_def Let_def
           split: reply.splits option.splits list.splits if_splits)

lemma step1_frame:
  "\<exists>cs. trace (snd (uploadFile_step1 e f w)) = trace w @ cs \<and>
        (\<forall>c \<in> set cs. \<not> is_cleanup c \<and> \<not> is_show_results c \<and> \<not> is_api c)"
  "supabaseInitialized (snd (uploadFile_step1 e f w)) = supabaseInitialized w"
  "supabaseClient (snd (uploadFile_step1 e f w)) = supabaseClient w"
proof -
  obtain r w1 where u: "uploadToDatabase e f w = (r, w1)" by (cases "uploadToDatabase e f w")
  from uploadToDatabase_frame[of e f w] u
  obtain cs where cs: "trace w1 = trace w @ cs"
    "\<forall>c \<in> set cs. \<not> is_cleanup c \<and> \<not> is_show_results c \<and> \<not> is_api c"
    and fl: "supabaseInitialized w1 = supabaseInitialized w" "supabaseClient w1 = supabaseClient w"
    by auto
  show "\<exists>cs. trace (snd (uploadFile_step1 e f w)) = trace w @ cs \<and>
        (\<forall>c \<in> set cs. \<not> is_cleanup c \<and> \<not> is_show_results c \<and> \<not> is_api c)"
    using u cs by (cases r) (auto simp: uploadFile_step1_def)
  show "supabaseInitialized (snd (uploadFile_step1 e f w)) = supabaseInitialized w"
    using u fl by (cases r) (auto simp: uploadFile_step1_def)
  show "supabaseClient (snd (uploadFile_step1 e f w)) = supabaseClient w"
    using u fl by (cases r) (auto simp: uploadFile_step1_def)
qed

lemma step1_truthy:
  assumes "uploadFile_step1 e f w = ((fileUrl, dbFileId, storagePath), w1)" "truthy dbFileId"
  shows "supabaseInitialized w \<and> supabaseClient w \<and> truthy storagePath"
proof -
  obtain r w0 where u: "uploadToDatabase e f w = (r, w0)" by (cases "uploadToDatabase e f w")
  show ?thesis
  proof (cases r)
    case (Inl err)
    with u assms show ?thesis by (auto simp: uploadFile_step1_def split: if_splits)
  next
    case (Inr res)
    with u uploadToDatabase_Inr[of e f w res] assms show ?thesis
      by (auto simp: uploadFile_step1_def split: if_splits)
  qed
qed

lemma saveAnalysis_frame:
  "\<exists>cs. trace (snd (saveAnalysisToDatabase e a fid w)) = trace w @ cs \<and>
        (\<forall>c \<in> set cs. \<not> is_cleanup c \<and> \<not> is_show_results c \<and> \<not> is_api c)"
  "supabaseInitialized (snd (saveAnalysisToDatabase e a fid w)) = supabaseInitialized w"
  "supabaseClient (snd (saveAnalysisToDatabase e a fid w)) = supabaseClient w"
  by (auto simp: saveAnalysisToDatabase_def analyses_insert_def
           split: reply.splits option.splits list.splits)

lemma saveAnalysis_Inr:
  "fst (saveAnalysisToDatabase e a fid w) = Inr row \<Longrightarrow>
     supabaseInitialized w \<and> supabaseClient w \<and> insert_ok (analyses_insert_reply e)"
  by (auto simp: saveAnalysisToDatabase_def analyses_insert_def insert_ok_def
           split: reply.splits option.splits list.splits if_splits)


lemma deletion_calls_cleanup [simp]:
  "filter is_cleanup (deletion_calls fid aid sp) = deletion_calls fid aid sp"
  "\<forall>c \<in> set (deletion_calls fid aid sp). \<not> is_show_results c \<and> \<not> is_api c"
  by (auto simp: deletion_calls_def)

lemma save_and_cleanup_frame:
  assumes "uploadFile_save_and_cleanup e result fid sp w = ((err, result'), w')"
  shows "\<exists>cs. trace w' = trace w @ cs \<and>
          (\<forall>c \<in> set cs. \<not> is_show_results c \<and> \<not> is_api c) \<and>
          ((filter is_cleanup cs = [] \<and> err \<noteq> None) \<or>
           (\<exists>aid. filter is_cleanup cs = Delay 1000 # deletion_calls fid aid sp \<and>
                  err = None \<and> insert_ok (analyses_insert_reply e) \<and>
                  result' = strip_remote_ids (obj_set result ''analysis_db_id'' aid)))"
proof -
  obtain r w1 where s: "saveAnalysisToDatabase e result fid w = (r, w1)"
    by (cases "saveAnalysisToDatabase e result fid w")
  from saveAnalysis_frame[of e result fid w] s
  obtain cs1 where cs1: "trace w1 = trace w @ cs1"
    "\<forall>c \<in> set cs1. \<not> is_cleanup c \<and> \<not> is_show_results c \<and> \<not> is_api c"
    and fl: "supabaseInitialized w1 = supabaseInitialized w" "supabaseClient w1 = supabaseClient w"
    by auto
  have none: "filter is_cleanup cs1 = []" using cs1(2) by (simp add: filter_none)
  show ?thesis
  proof (cases r)
    case (Inl e1)
    with s assms cs1 none show ?thesis
      by (auto simp: uploadFile_save_and_cleanup_def)
  next
    case (Inr row)
    with s saveAnalysis_Inr[of e result fid w row]
    have ok: "supabaseInitialized w" "supabaseClient w" "insert_ok (analyses_insert_reply e)"
      by auto
    let ?w2 = "emit (Delay 1000) w1"
    have fl2: "supabaseInitialized ?w2" "supabaseClient ?w2" using ok fl by simp_all
    obtain d w3 where d: "deleteAllRecords e fid (row_id row) sp ?w2 = (d, w3)"
      by (cases "deleteAllRecords e fid (row_id row) sp ?w2")
    from deleteAllRecords_eq[OF fl2, of e fid "row_id row" sp] d
    obtain dr where dr: "d = Inr dr"
      and t3: "trace w3 = trace w @ cs1 @ [Delay 1000] @ deletion_calls fid (row_id row) sp"
      using cs1(1) by auto
    show ?thesis
    proof (cases "0 < deletedItems_length dr")
      case True
      let ?t = "toast_success (lit ''Analysis complete - '' @ dec (deletedItems_length dr) @
                  lit '' items cleaned up'')"
      from assms s Inr d dr True
      have res: "err = None"
        "result' = strip_remote_ids (obj_set result ''analysis_db_id'' (row_id row))"
        "w' = emit ?t w3"
        by (auto simp: uploadFile_save_and_cleanup_def Let_def)
      have "trace w' = trace w @ (cs1 @ [Delay 1000] @ deletion_calls fid (row_id row) sp @ [?t])"
        using res(3) t3 by simp
      moreover have "filter is_cleanup (cs1 @ [Delay 1000] @ deletion_calls fid (row_id row) sp @ [?t])
                       = Delay 1000 # deletion_calls fid (row_id row) sp"
        using none by simp
      moreover have "\<forall>c \<in> set (cs1 @ [Delay 1000] @ deletion_calls fid (row_id row) sp @ [?t]).
                       \<not> is_show_results c \<and> \<not> is_api c"
        using cs1(2) deletion_calls_cleanup(2)[of fid "row_id row" sp] by auto
      ultimately show ?thesis using res ok(3) by blast
    next
      case False
      from assms s Inr d dr False
      have res: "err = None"
        "result' = strip_remote_ids (obj_set result ''analysis_db_id'' (row_id row))"
        "w' = w3"
        by (auto simp: uploadFile_save_and_cleanup_def Let_def)
      have "trace w' = trace w @ (cs1 @ [Delay 1000] @ deletion_calls fid (row_id row) sp)"
        using res(3) t3 by simp
      moreover have "filter is_cleanup (cs1 @ [Delay 1000] @ deletion_calls fid (row_id row) sp)
                       = Delay 1000 # deletion_calls fid (row_id row) sp"
        using none by simp
      moreover have "\<forall>c \<in> set (cs1 @ [Delay 1000] @ deletion_calls fid (row_id row) sp).
                       \<not> is_show_results c \<and> \<not> is_api c"
        using cs1(2) deletion_calls_cleanup(2)[of fid "row_id row" sp] by auto
      ultimately show ?thesis using res ok(3) by blast
    qed
  qed
qed


lemma uploadFile_ok_frame:
  assumes "truthy fid \<longrightarrow> truthy sp"
  shows "\<exists>cs. trace (uploadFile_ok e result fileUrl fid sp w) = trace w @ cs \<and>
          (\<forall>c \<in> set cs. \<not> is_api c) \<and> cleanup_shape e cs"
proof (cases "supabaseInitialized w \<and> truthy fid")
  case False
  then have "trace (uploadFile_ok e result fileUrl fid sp w) =
      trace w @ [ShowResults (if truthy fid
         then obj_set (obj_set (obj_set result ''db_file_id'' fid) ''file_url'' fileUrl)
                 ''storage_path'' sp else result), HideLoading, ClearFile]"
    by (auto simp: uploadFile_ok_def Let_def)
  then show ?thesis by (auto simp: cleanup_shape_def)
next
  case True
  let ?r1 = "obj_set (obj_set (obj_set result ''db_file_id'' fid) ''file_url'' fileUrl)
                 ''storage_path'' sp"
  obtain err r2 w1 where sc: "uploadFile_save_and_cleanup e ?r1 fid sp w = ((err, r2), w1)"
    by (metis surj_pair)
  from save_and_cleanup_frame[OF sc]
  obtain cs where cs: "trace w1 = trace w @ cs"
    "\<forall>c \<in> set cs. \<not> is_show_results c \<and> \<not> is_api c"
    and shape: "(filter is_cleanup cs = [] \<and> err \<noteq> None) \<or>
           (\<exists>aid. filter is_cleanup cs = Delay 1000 # deletion_calls fid aid sp \<and>
                  err = None \<and> insert_ok (analyses_insert_reply e) \<and>
                  r2 = strip_remote_ids (obj_set ?r1 ''analysis_db_id'' aid))"
    by blast
  have nr: "filter is_show_results cs = []" using cs(2) by (simp add: filter_none)
  show ?thesis
  proof (cases err)
    case None
    with True sc have "trace (uploadFile_ok e result fileUrl fid sp w) =
        trace w @ (cs @ [ShowResults r2, HideLoading, ClearFile])"
      using cs(1) by (simp add: uploadFile_ok_def Let_def)
    moreover have "\<forall>c \<in> set (cs @ [ShowResults r2, HideLoading, ClearFile]). \<not> is_api c"
      using cs(2) by auto
    moreover from shape None obtain aid where
      "filter is_cleanup cs = Delay 1000 # deletion_calls fid aid sp"
      "insert_ok (analyses_insert_reply e)"
      "r2 = strip_remote_ids (obj_set ?r1 ''analysis_db_id'' aid)" by auto
    then have "cleanup_shape e (cs @ [ShowResults r2, HideLoading, ClearFile])"
      unfolding cleanup_shape_def using True assms nr by auto
    ultimately show ?thesis by blast
  next
    case (Some e1)
    let ?t = "toast_error (lit ''Analysis save failed: '' @ e1)"
    from Some True sc have "trace (uploadFile_ok e result fileUrl fid sp w) =
        trace w @ (cs @ [?t, ShowResults r2, HideLoading, ClearFile])"
      using cs(1) by (simp add: uploadFile_ok_def Let_def)
    moreover have "\<forall>c \<in> set (cs @ [?t, ShowResults r2, HideLoading, ClearFile]). \<not> is_api c"
      using cs(2) by auto
    moreover from shape Some have "filter is_cleanup cs = []" by auto
    then have "cleanup_shape e (cs @ [?t, ShowResults r2, HideLoading, ClearFile])"
      unfolding cleanup_shape_def by simp
    ultimately show ?thesis by blast
  qed
qed

lemma uploadFile_frame:
  "\<exists>cs. trace (uploadFile e fi w) = trace w @ cs \<and> cleanup_shape e cs"
proof (cases fi)
  case None
  then show ?thesis by (simp add: uploadFile_def cleanup_shape_def)
next
  case (Some fs)
  show ?thesis
  proof (cases fs)
    case Nil
    with Some show ?thesis by (simp add: uploadFile_def cleanup_shape_def)
  next
    case (Cons f rest)
    show ?thesis
    proof (cases "file_size f > 10 * 1024 * 1024")
      case True
      with Some Cons show ?thesis by (simp add: uploadFile_def cleanup_shape_def)
    next
      case False
      obtain fileUrl fid sp w1 where s1:
        "uploadFile_step1 e f (emit ShowLoading w) = ((fileUrl, fid, sp), w1)"
        by (metis surj_pair)
      from step1_frame(1)[of e f "emit ShowLoading w"] s1
      obtain cs1 where cs1: "trace w1 = trace w @ [ShowLoading] @ cs1"
        "\<forall>c \<in> set cs1. \<not> is_cleanup c \<and> \<not> is_show_results c \<and> \<not> is_api c"
        by auto
      have n1: "filter is_cleanup cs1 = []" using cs1(2) by (simp add: filter_none)
      have nr: "filter is_show_results cs1 = []" using cs1(2) by (simp add: filter_none)
      have tr: "truthy fid \<longrightarrow> truthy sp" using step1_truthy[OF s1] by blast
      let ?w2 = "emit (ApiUpload f) w1"
      show ?thesis
      proof (cases "api_answer e")
        case (ApiFailed err)
        with Some Cons False s1 cs1(1)
        have "trace (uploadFile e fi w) = trace w @
           ([ShowLoading] @ cs1 @ [ApiUpload f, HideLoading,
              toast_error (lit ''Network error: '' @ err)])"
          by (simp add: uploadFile_def Let_def)
        then show ?thesis using n1 by (auto simp: cleanup_shape_def)
      next
        case (ApiResponse ok result)
        show ?thesis
        proof (cases ok)
          case False
          with ApiResponse Some Cons \<open>\<not> 10 * 1024 * 1024 < file_size f\<close> s1 cs1(1)
          have "trace (uploadFile e fi w) = trace w @
             ([ShowLoading] @ cs1 @ [ApiUpload f, HideLoading,
                ShowToast (js_or (obj_get result ''error'') (JStr (lit ''Upload failed'')))
                  ToastError])"
            by (simp add: uploadFile_def Let_def)
          then show ?thesis using n1 by (auto simp: cleanup_shape_def)
        next
          case True
          from uploadFile_ok_frame[OF tr, of e result fileUrl ?w2]
          obtain cs2 where cs2:
            "trace (uploadFile_ok e result fileUrl fid sp ?w2) = trace ?w2 @ cs2"
            "cleanup_shape e cs2" by blast
          from True ApiResponse Some Cons False s1
          have "uploadFile e fi w = uploadFile_ok e result fileUrl fid sp ?w2"
            by (simp add: uploadFile_def Let_def)
          then have "trace (uploadFile e fi w) =
             trace w @ (([ShowLoading] @ cs1 @ [ApiUpload f]) @ cs2)"
            using cs2(1) cs1(1) by simp
          moreover have "cleanup_shape e (([ShowLoading] @ cs1 @ [ApiUpload f]) @ cs2)"
            using cs2(2) n1 nr unfolding cleanup_shape_def by auto
          ultimately show ?thesis by blast
        qed
      qed
    qed
  qed
qed


section \<open>Claims about analyze-by-file\<close>

text \<open>
  C4. A file whose size exceeds 10 MiB is rejected: the only thing \<open>uploadFile\<close> does
  is to show the error toast, so it makes no network call (no storage upload, no
  database call, no API request) and the remote store is as before.
\<close>

theorem uploadFile_rejects_large_file:
  "10 * 1024 * 1024 < file_size f \<Longrightarrow>
   calls w (uploadFile e (Some (f # files)) w) =
     [toast_error (lit ''File too large. Maximum size is 10MB.'')] \<and>
   filter is_network (calls w (uploadFile e (Some (f # files)) w)) = [] \<and>
   store (uploadFile e (Some (f # files)) w) = store w"
  by (simp add: uploadFile_def calls_def)

theorem uploadFile_rejects_large_file_witness:
  "10 * 1024 * 1024 < file_size big_file \<and>
   calls world_ready (uploadFile env_ok (Some [big_file]) world_ready) =
     [toast_error (lit ''File too large. Maximum size is 10MB.'')] \<and>
   filter is_network (calls world_ready (uploadFile env_ok (Some [big_file]) world_ready)) = [] \<and>
   store (uploadFile env_ok (Some [big_file]) world_ready) = store world_ready"
  using uploadFile_rejects_large_file [of big_file world_ready env_ok "[]"]
  by (simp add: big_file_def)

text \<open>
  C2. When the insert of the analysis row fails (it rejects, settles with an error, or
  returns no row), the run of \<open>uploadFile\<close> makes no deletion call: no storage removal,
  no deletion from \<open>analyses\<close>, no deletion from \<open>documents\<close>.
\<close>

theorem uploadFile_no_deletion_when_insert_fails:
  "\<not> insert_ok (analyses_insert_reply e) \<Longrightarrow>
   filter is_deletion (calls w (uploadFile e fileInput w)) = []"
proof -
  assume fails: "\<not> insert_ok (analyses_insert_reply e)"
  obtain cs where cs: "trace (uploadFile e fileInput w) = trace w @ cs" "cleanup_shape e cs"
    using uploadFile_frame by blast
  from cs(2) fails have "filter is_cleanup cs = []" by (auto simp: cleanup_shape_def)
  then have "filter is_deletion cs = []" by (rule filter_deletion_nil)
  with calls_append[OF cs(1)] show ?thesis by simp
qed

theorem uploadFile_no_deletion_when_insert_fails_witness:
  "\<not> insert_ok (analyses_insert_reply env_save_fails) \<and>
   filter is_deletion
     (calls world_ready (uploadFile env_save_fails (Some [sample_file]) world_ready)) = []"
  using uploadFile_no_deletion_when_insert_fails
          [of env_save_fails world_ready "Some [sample_file]"]
  by (simp add: env_save_fails_def env_ok_def insert_ok_def)

text \<open>
  C3. With persistence initialised, \<open>deleteAllRecords\<close> attempts the removal of the
  storage object, then the deletion of the analysis row, then the deletion of the
  document row, each when its argument is truthy and whatever the other deletions
  answered; it returns the three flags, each telling whether its deletion was attempted
  and settled without error. In a run of \<open>uploadFile\<close> the deletions, when there are
  any, come directly after the delay of 1000 ms, in that order.
\<close>

theorem deleteAllRecords_order_and_flags:
  assumes "supabaseInitialized w" and "supabaseClient w"
  shows "fst (deleteAllRecords e fileId analysisId storagePath w) =
           Inr \<lparr>storage = truthy storagePath \<and> settled_ok (storage_remove_reply e),
                documents = truthy fileId \<and> settled_ok (documents_delete_reply e),
                analyses = truthy analysisId \<and> settled_ok (analyses_delete_reply e)\<rparr> \<and>
         calls w (snd (deleteAllRecords e fileId analysisId storagePath w)) =
           (if truthy storagePath then [StorageRemove storagePath] else []) @
           (if truthy analysisId then [AnalysesDelete analysisId] else []) @
           (if truthy fileId then [DocumentsDelete fileId] else []) \<and>
         (filter is_cleanup (calls w (uploadFile e fileInput w)) = [] \<or>
          (\<exists>fid aid sp. truthy fid \<and> truthy sp \<and>
             filter is_cleanup (calls w (uploadFile e fileInput w)) =
               Delay 1000 # StorageRemove sp #
                 (if truthy aid then [AnalysesDelete aid] else []) @ [DocumentsDelete fid]))"
proof -
  obtain cs where cs: "trace (uploadFile e fileInput w) = trace w @ cs" "cleanup_shape e cs"
    using uploadFile_frame by blast
  have "filter is_cleanup cs = [] \<or>
          (\<exists>fid aid sp. truthy fid \<and> truthy sp \<and>
             filter is_cleanup cs =
               Delay 1000 # StorageRemove sp #
                 (if truthy aid then [AnalysesDelete aid] else []) @ [DocumentsDelete fid])"
    using cs(2) unfolding cleanup_shape_def deletion_calls_def by fastforce
  then show ?thesis
    using deleteAllRecords_eq(1,2)[OF assms, of e fileId analysisId storagePath]
      calls_append[OF cs(1)]
      calls_append[OF deleteAllRecords_eq(2)[OF assms, of e fileId analysisId storagePath]]
    by (simp add: deletion_calls_def)
qed

theorem deleteAllRecords_order_and_flags_witness:
  "supabaseInitialized world_ready \<and> supabaseClient world_ready \<and>
   fst (deleteAllRecords env_remove_rejects (JNum 7) (JNum 9) (JStr (lit ''uploads/1-x.pdf''))
          world_ready) =
     Inr \<lparr>storage = False, documents = True, analyses = True\<rparr> \<and>
   calls world_ready
     (snd (deleteAllRecords env_remove_rejects (JNum 7) (JNum 9)
             (JStr (lit ''uploads/1-x.pdf'')) world_ready)) =
     [StorageRemove (JStr (lit ''uploads/1-x.pdf'')), AnalysesDelete (JNum 9),
      DocumentsDelete (JNum 7)] \<and>
   filter is_cleanup
     (calls world_ready (uploadFile env_remove_rejects (Some [sample_file]) world_ready)) =
     [Delay 1000, StorageRemove (JStr (filePath 1700000000000 (lit ''x.pdf''))),
      AnalysesDelete (JNum 9), DocumentsDelete (JNum 7)]"
proof -
  have run: "filter is_cleanup
     (calls world_ready (uploadFile env_remove_rejects (Some [sample_file]) world_ready)) =
     [Delay 1000, StorageRemove (JStr (filePath 1700000000000 (lit ''x.pdf''))),
      AnalysesDelete (JNum 9), DocumentsDelete (JNum 7)]"
    by (simp add: run_defs calls_def env_remove_rejects_def env_ok_def world_ready_def
          sample_file_def sample_document_row_def sample_analysis_row_def row_id_def
          obj_get_def toast_error_def toast_success_def deletedItems_length_def)
  show ?thesis
    using deleteAllRecords_order_and_flags
            [of world_ready env_remove_rejects "JNum 7" "JNum 9"
                "JStr (lit ''uploads/1-x.pdf'')" "Some [sample_file]"] run
    by (simp add: world_ready_def env_remove_rejects_def env_ok_def settled_ok_def lit_def)
qed

text \<open>
  C8. In a run of \<open>uploadFile\<close> that reached the cleanup (the delay and the deletions),
  exactly one result is shown to the user, and it has none of the properties
  \<open>db_file_id\<close>, \<open>analysis_db_id\<close>, \<open>file_url\<close>, \<open>storage_path\<close>.
\<close>

theorem uploadFile_shows_no_remote_ids_after_cleanup:
  assumes "c \<in> set (calls w (uploadFile e fileInput w))" and "is_cleanup c"
  shows "\<exists>r. filter is_show_results (calls w (uploadFile e fileInput w)) = [ShowResults r] \<and>
             \<not> has_key r ''db_file_id'' \<and> \<not> has_key r ''analysis_db_id'' \<and>
             \<not> has_key r ''file_url'' \<and> \<not> has_key r ''storage_path''"
proof -
  obtain cs where cs: "trace (uploadFile e fileInput w) = trace w @ cs" "cleanup_shape e cs"
    using uploadFile_frame by blast
  have eq: "calls w (uploadFile e fileInput w) = cs" by (rule calls_append[OF cs(1)])
  with assms have "filter is_cleanup cs \<noteq> []" by (auto simp: filter_empty_conv)
  with cs(2) obtain r0 where "filter is_show_results cs = [ShowResults (strip_remote_ids r0)]"
    by (auto simp: cleanup_shape_def)
  with eq show ?thesis using strip_remote_ids_keys[of r0] by auto
qed

theorem uploadFile_shows_no_remote_ids_after_cleanup_witness:
  "Delay 1000 \<in> set (calls world_ready (uploadFile env_ok (Some [sample_file]) world_ready)) \<and>
   is_cleanup (Delay 1000) \<and>
   filter is_show_results
     (calls world_ready (uploadFile env_ok (Some [sample_file]) world_ready)) =
     [ShowResults sample_result] \<and>
   \<not> has_key sample_result ''db_file_id'' \<and> \<not> has_key sample_result ''analysis_db_id'' \<and>
   \<not> has_key sample_result ''file_url'' \<and> \<not> has_key sample_result ''storage_path''"
proof -
  have run:
    "Delay 1000 \<in> set (calls world_ready (uploadFile env_ok (Some [sample_file]) world_ready))"
    "filter is_show_results
       (calls world_ready (uploadFile env_ok (Some [sample_file]) world_ready)) =
     [ShowResults sample_result]"
    by (simp_all add: run_defs calls_def env_ok_def world_ready_def
          sample_file_def sample_document_row_def sample_analysis_row_def row_id_def
          obj_get_def toast_error_def toast_success_def deletedItems_length_def
          strip_remote_ids_def obj_delete_def sample_result_def)
  from uploadFile_shows_no_remote_ids_after_cleanup [OF run(1)] run(2)
  show ?thesis using run by auto
qed

text \<open>
  C1, as stated, fails: when the upload of the file and the insert of its document row
  succeed and the insert of the analysis row is refused, \<open>uploadFile\<close> skips the
  cleanup, shows the result, and leaves the storage object and the document row in
  the remote store.
\<close>

theorem uploadFile_leaves_content_when_insert_fails:
  "supabaseInitialized world_ready \<and> supabaseClient world_ready \<and>
   filter is_show_results
     (calls world_ready (uploadFile env_save_fails (Some [sample_file]) world_ready)) =
     [ShowResults
        (sample_result @
         [(''db_file_id'', JNum 7),
          (''file_url'',
             JStr (lit ''https://store.example/'' @ filePath 1700000000000 (lit ''x.pdf''))),
          (''storage_path'', JStr (filePath 1700000000000 (lit ''x.pdf'')))])] \<and>
   bucket (store (uploadFile env_save_fails (Some [sample_file]) world_ready)) =
     [(filePath 1700000000000 (lit ''x.pdf''), sample_file)] \<and>
   documents_table (store (uploadFile env_save_fails (Some [sample_file]) world_ready)) =
     [sample_document_row]"
  by (simp add: run_defs calls_def env_save_fails_def env_ok_def world_ready_def sample_file_def
        sample_document_row_def row_id_def obj_get_def toast_error_def sample_result_def)

lemma uploadToDatabase_upload_fails:
  "\<not> settled_ok (storage_upload_reply e) \<Longrightarrow>
   store (snd (uploadToDatabase e f w)) = store w \<and> (\<exists>err. fst (uploadToDatabase e f w) = Inl err)"
  by (auto simp: uploadToDatabase_def storage_upload_def settled_ok_def Let_def
           split: reply.splits option.splits)

lemma step1_upload_fails:
  "\<not> settled_ok (storage_upload_reply e) \<Longrightarrow>
   store (snd (uploadFile_step1 e f w)) = store w \<and>
   fst (snd (fst (uploadFile_step1 e f w))) = JNull"
  using uploadToDatabase_upload_fails[of e f w]
  by (cases "uploadToDatabase e f w") (auto simp: uploadFile_step1_def)

lemma uploadFile_upload_fails:
  assumes "\<not> settled_ok (storage_upload_reply e)"
  shows "store (uploadFile e fileInput w) = store w"
proof (cases fileInput)
  case None
  then show ?thesis by (simp add: uploadFile_def)
next
  case (Some fs)
  show ?thesis
  proof (cases fs)
    case Nil
    with Some show ?thesis by (simp add: uploadFile_def)
  next
    case (Cons f rest)
    obtain fileUrl fid sp w1 where s1:
      "uploadFile_step1 e f (emit ShowLoading w) = ((fileUrl, fid, sp), w1)"
      by (metis surj_pair)
    with step1_upload_fails[OF assms, of f "emit ShowLoading w"]
    have "store w1 = store w" "fid = JNull" by simp_all
    with Some Cons s1 show ?thesis
      by (cases "api_answer e") (auto simp: uploadFile_def uploadFile_ok_def Let_def)
  qed
qed


lemma uploadFile_all_succeed:
  assumes "supabaseInitialized w" and "supabaseClient w"
    and "\<not> 10 * 1024 * 1024 < file_size f"
    and "storage_upload_reply e = Settled None ()"
    and "documents_insert_reply e = Settled None (Some [document_row])"
    and "truthy (row_id document_row)"
    and "api_answer e = ApiResponse True result"
    and "analyses_insert_reply e = Settled None (Some [analysis_row])"
    and "truthy (row_id analysis_row)"
    and "storage_remove_reply e = Settled None ()"
    and "analyses_delete_reply e = Settled None ()"
    and "documents_delete_reply e = Settled None ()"
  shows "filter is_show_results (calls w (uploadFile e (Some (f # files)) w)) =
           [ShowResults (strip_remote_ids result)] \<and>
         filePath (date_now e) (file_name f)
           \<notin> fst ` set (bucket (store (uploadFile e (Some (f # files)) w))) \<and>
         row_id document_row
           \<notin> row_id ` set (documents_table (store (uploadFile e (Some (f # files)) w))) \<and>
         row_id analysis_row
           \<notin> row_id ` set (analyses_table (store (uploadFile e (Some (f # files)) w))) \<and>
         set (bucket (store (uploadFile e (Some (f # files)) w))) \<subseteq> set (bucket (store w)) \<and>
         set (documents_table (store (uploadFile e (Some (f # files)) w)))
           \<subseteq> set (documents_table (store w)) \<and>
         set (analyses_table (store (uploadFile e (Some (f # files)) w)))
           \<subseteq> set (analyses_table (store w))"
  using assms
  by (auto simp: run_defs calls_def toast_success_def toast_error_def deletedItems_length_def)

text \<open>
  C1, amended. Take a run of \<open>uploadFile\<close> with persistence enabled and a file within
  the size limit. When the upload, the insert of the document row, the analysis and
  the insert of the analysis row succeed (each insert returning its one row with a
  truthy id) and the three deletions settle without error, the result is shown, and
  afterwards the storage object, the document row and the analysis row of this run are
  absent from the remote store, which holds nothing it did not hold before. When the
  upload to the storage fails, the run leaves the remote store as it was.
\<close>

theorem uploadFile_removes_what_it_created:
  "(supabaseInitialized w \<and> supabaseClient w \<and> \<not> 10 * 1024 * 1024 < file_size f \<and>
    storage_upload_reply e = Settled None () \<and>
    documents_insert_reply e = Settled None (Some [document_row]) \<and>
    truthy (row_id document_row) \<and>
    api_answer e = ApiResponse True result \<and>
    analyses_insert_reply e = Settled None (Some [analysis_row]) \<and>
    truthy (row_id analysis_row) \<and>
    storage_remove_reply e = Settled None () \<and>
    analyses_delete_reply e = Settled None () \<and>
    documents_delete_reply e = Settled None () \<longrightarrow>
      filter is_show_results (calls w (uploadFile e (Some (f # files)) w)) =
        [ShowResults (strip_remote_ids result)] \<and>
      filePath (date_now e) (file_name f)
        \<notin> fst ` set (bucket (store (uploadFile e (Some (f # files)) w))) \<and>
      row_id document_row
        \<notin> row_id ` set (documents_table (store (uploadFile e (Some (f # files)) w))) \<and>
      row_id analysis_row
        \<notin> row_id ` set (analyses_table (store (uploadFile e (Some (f # files)) w))) \<and>
      set (bucket (store (uploadFile e (Some (f # files)) w))) \<subseteq> set (bucket (store w)) \<and>
      set (documents_table (store (uploadFile e (Some (f # files)) w)))
        \<subseteq> set (documents_table (store w)) \<and>
      set (analyses_table (store (uploadFile e (Some (f # files)) w)))
        \<subseteq> set (analyses_table (store w))) \<and>
   (\<not> settled_ok (storage_upload_reply e) \<longrightarrow>
      store (uploadFile e (Some (f # files)) w) = store w)"
  using uploadFile_all_succeed [of w f e document_row result analysis_row files]
        uploadFile_upload_fails [of e "Some (f # files)" w]
  by blast

theorem uploadFile_removes_what_it_created_witness:
  "supabaseInitialized world_ready \<and> supabaseClient world_ready \<and>
   \<not> 10 * 1024 * 1024 < file_size sample_file \<and>
   storage_upload_reply env_ok = Settled None () \<and>
   documents_insert_reply env_ok = Settled None (Some [sample_document_row]) \<and>
   truthy (row_id sample_document_row) \<and>
   api_answer env_ok = ApiResponse True sample_result \<and>
   analyses_insert_reply env_ok = Settled None (Some [sample_analysis_row]) \<and>
   truthy (row_id sample_analysis_row) \<and>
   storage_remove_reply env_ok = Settled None () \<and>
   analyses_delete_reply env_ok = Settled None () \<and>
   documents_delete_reply env_ok = Settled None () \<and>
   filter is_show_results
     (calls world_ready (uploadFile env_ok (Some [sample_file]) world_ready)) =
     [ShowResults sample_result] \<and>
   bucket (store (uploadFile env_ok (Some [sample_file]) world_ready)) = [] \<and>
   documents_table (store (uploadFile env_ok (Some [sample_file]) world_ready)) = [] \<and>
   analyses_table (store (uploadFile env_ok (Some [sample_file]) world_ready)) = [] \<and>
   \<not> settled_ok (storage_upload_reply env_upload_fails) \<and>
   store (uploadFile env_upload_fails (Some [sample_file]) world_ready) = store world_ready"
  using uploadFile_removes_what_it_created
          [of world_ready sample_file env_ok sample_document_row sample_result
              sample_analysis_row "[]"]
        uploadFile_removes_what_it_created
          [of world_ready sample_file env_upload_fails sample_document_row sample_result
              sample_analysis_row "[]"]
  by (simp add: world_ready_def env_ok_def env_upload_fails_def sample_file_def
        sample_document_row_def sample_analysis_row_def row_id_def obj_get_def
        strip_remote_ids_def obj_delete_def sample_result_def settled_ok_def)

section \<open>The calls of analyzeText\<close>

lemma obj_get_obj_set [simp]: "obj_get (obj_set obj k v) k = v"
  by (induction obj) (auto simp: obj_get_def)

lemma persists_text_simps [simp]:
  "persists_text t (DocumentsInsert row) \<longleftrightarrow> obj_get row ''text_content'' = JStr t"
  "persists_text t (AnalysesInsert row) \<longleftrightarrow> obj_get row ''text_length'' = JNum (int (length t))"
  "persists_text t (DocumentsDelete i)" "persists_text t (AnalysesDelete i)"
  "persists_text t (Delay n)" "persists_text t (ShowToast m k)" "persists_text t (ShowResults r)"
  "persists_text t ShowLoading" "persists_text t HideLoading" "persists_text t (ApiText s)"
  "persists_text t (toast_error m')" "persists_text t (toast_success m')"
  by (simp_all add: persists_text_def toast_error_def toast_success_def)

lemma textDocument_content [simp]: "obj_get (textDocument e t) ''text_content'' = JStr t"
  by (simp add: textDocument_def obj_get_def)

lemma insertData_text_length:
  "obj_get a ''text_length'' = JNum n \<Longrightarrow> n \<noteq> 0 \<Longrightarrow>
   obj_get (insertData e a fid) ''text_length'' = JNum n"
  by (simp add: insertData_def obj_get_def js_or_def)

lemma saveAnalysis_calls:
  "trace (snd (saveAnalysisToDatabase e a fid w)) =
     trace w @ (if supabaseInitialized w \<and> supabaseClient w
                then [AnalysesInsert (insertData e a fid)] else [])"
  by (auto simp: saveAnalysisToDatabase_def analyses_insert_def
           split: reply.splits option.splits list.splits)

lemma saveText_frame:
  assumes "text \<noteq> []"
  shows "\<exists>cs. trace (snd (snd (saveTextAnalysisToDatabase e a text w))) = trace w @ cs \<and>
              text_shape e w text cs"
    and "supabaseInitialized (snd (snd (saveTextAnalysisToDatabase e a text w))) =
           supabaseInitialized w"
    and "supabaseClient (snd (snd (saveTextAnalysisToDatabase e a text w))) = supabaseClient w"
proof -
  have len: "int (length text) \<noteq> 0" using assms by simp
  note il = insertData_text_length[OF _ len]
  show "\<exists>cs. trace (snd (snd (saveTextAnalysisToDatabase e a text w))) = trace w @ cs \<and>
              text_shape e w text cs"
    by (auto simp: saveTextAnalysisToDatabase_def documents_insert_def Let_def text_shape_def
          saveAnalysis_calls il insert_ok_def case_prod_beta
          split: reply.splits option.splits list.splits)
  show "supabaseInitialized (snd (snd (saveTextAnalysisToDatabase e a text w))) =
           supabaseInitialized w"
    using saveAnalysis_frame(2)
    by (auto simp: saveTextAnalysisToDatabase_def documents_insert_def Let_def case_prod_beta
          split: reply.splits option.splits list.splits)
  show "supabaseClient (snd (snd (saveTextAnalysisToDatabase e a text w))) = supabaseClient w"
    using saveAnalysis_frame(3)
    by (auto simp: saveTextAnalysisToDatabase_def documents_insert_def Let_def case_prod_beta
          split: reply.splits option.splits list.splits)
qed


lemma text_shape_append:
  "text_shape e w t cs \<Longrightarrow> \<forall>c \<in> set cs'. persists_text t c \<and> \<not> is_api c \<Longrightarrow>
   text_shape e w t (cs @ cs')"
  by (auto simp: text_shape_def)

lemma analyzeText_save_and_cleanup_frame:
  assumes "text \<noteq> []"
  shows "\<exists>cs. trace (snd (analyzeText_save_and_cleanup e result text w)) = trace w @ cs \<and>
              text_shape e w text cs"
proof -
  obtain r a' w1 where s: "saveTextAnalysisToDatabase e result text w = (r, a', w1)"
    by (metis surj_pair)
  from saveText_frame(1)[OF assms, of e result w] s
  obtain cs1 where cs1: "trace w1 = trace w @ cs1" "text_shape e w text cs1" by auto
  have "\<exists>cs'. trace (snd (analyzeText_save_and_cleanup e result text w)) = trace w1 @ cs' \<and>
              (\<forall>c \<in> set cs'. persists_text text c \<and> \<not> is_api c)"
    using s
    by (cases r)
       (auto simp: analyzeText_save_and_cleanup_def Let_def analyses_delete_def
          documents_delete_def split: reply.splits)
  then obtain cs' where
    "trace (snd (analyzeText_save_and_cleanup e result text w)) = trace w @ (cs1 @ cs')"
    "\<forall>c \<in> set cs'. persists_text text c \<and> \<not> is_api c"
    using cs1(1) by auto
  with text_shape_append[OF cs1(2)] show ?thesis by blast
qed

lemma analyzeText_ok_frame:
  assumes "text \<noteq> []"
  shows "\<exists>cs. trace (analyzeText_ok e result text w) = trace w @ cs \<and>
              (supabaseInitialized w \<longrightarrow> text_shape e w text cs) \<and>
              (\<forall>c \<in> set cs. persists_text text c \<and> \<not> is_api c)"
proof (cases "supabaseInitialized w")
  case False
  then show ?thesis by (simp add: analyzeText_ok_def)
next
  case True
  obtain err r2 w1 where sc: "analyzeText_save_and_cleanup e result text w = ((err, r2), w1)"
    by (metis surj_pair)
  from analyzeText_save_and_cleanup_frame[OF assms, of e result w] sc
  obtain cs where cs: "trace w1 = trace w @ cs" "text_shape e w text cs" by auto
  have "\<exists>cs'. trace (analyzeText_ok e result text w) = trace w1 @ cs' \<and>
              (\<forall>c \<in> set cs'. persists_text text c \<and> \<not> is_api c)"
    using True sc by (cases err) (auto simp: analyzeText_ok_def)
  then obtain cs' where cs':
    "trace (analyzeText_ok e result text w) = trace w @ (cs @ cs')"
    "\<forall>c \<in> set cs'. persists_text text c \<and> \<not> is_api c"
    using cs(1) by auto
  have "text_shape e w text (cs @ cs')" by (rule text_shape_append[OF cs(2) cs'(2)])
  moreover from this have "\<forall>c \<in> set (cs @ cs'). persists_text text c \<and> \<not> is_api c"
    by (simp add: text_shape_def)
  ultimately show ?thesis using cs'(1) by blast
qed

lemma analyzeText_frame:
  assumes "trim v \<noteq> []"
  shows "\<exists>cs. calls w (analyzeText e (Some v) w) =
                ShowLoading # ApiText (take 3000 (trim v)) # cs \<and>
              (\<forall>c \<in> set cs. persists_text (trim v) c \<and> \<not> is_api c) \<and>
              (supabaseInitialized w \<and> (\<exists>result. api_answer e = ApiResponse True result) \<longrightarrow>
                 text_shape e w (trim v) cs)"
proof -
  let ?w1 = "emit (ApiText (take 3000 (trim v))) (emit ShowLoading w)"
  show ?thesis
  proof (cases "api_answer e")
    case (ApiFailed err)
    with assms show ?thesis
      by (simp add: analyzeText_def Let_def substring0_def calls_def)
  next
    case (ApiResponse ok result)
    show ?thesis
    proof (cases ok)
      case False
      with ApiResponse assms show ?thesis
        by (simp add: analyzeText_def Let_def substring0_def calls_def)
    next
      case True
      from analyzeText_ok_frame[OF assms, of e result ?w1]
      obtain cs where cs: "trace (analyzeText_ok e result (trim v) ?w1) = trace ?w1 @ cs"
        "supabaseInitialized ?w1 \<longrightarrow> text_shape e ?w1 (trim v) cs"
        "\<forall>c \<in> set cs. persists_text (trim v) c \<and> \<not> is_api c" by blast
      have "analyzeText e (Some v) w = analyzeText_ok e result (trim v) ?w1"
        using True ApiResponse assms by (simp add: analyzeText_def Let_def substring0_def)
      then have "calls w (analyzeText e (Some v) w) =
                   ShowLoading # ApiText (take 3000 (trim v)) # cs"
        using cs(1) by (simp add: calls_def)
      moreover have "supabaseInitialized w \<longrightarrow> text_shape e w (trim v) cs"
        using cs(2) by (simp add: text_shape_def)
      ultimately show ?thesis using cs(3) by blast
    qed
  qed
qed

lemma trim_id: "v \<noteq> [] \<Longrightarrow> \<not> is_js_space (hd v) \<Longrightarrow> \<not> is_js_space (last v) \<Longrightarrow> trim v = v"
proof -
  assume v: "v \<noteq> []" and h: "\<not> is_js_space (hd v)" and l: "\<not> is_js_space (last v)"
  have a: "dropWhile is_js_space v = v" using v h by (cases v) auto
  have "\<not> is_js_space (hd (rev v))" using v l by (simp add: hd_rev)
  then have "dropWhile is_js_space (rev v) = rev v" using v by (cases "rev v") auto
  with a show ?thesis by (simp add: trim_def)
qed

lemma trim_long_text [simp]: "trim long_text = long_text"
  by (rule trim_id) (simp_all add: long_text_def is_js_space_def)

lemma long_text_facts [simp]: "long_text \<noteq> []" "length long_text = 3001"
  by (simp_all add: long_text_def)

lemmas text_run_defs = analyzeText_def analyzeText_ok_def analyzeText_save_and_cleanup_def
  saveTextAnalysisToDatabase_def saveAnalysisToDatabase_def documents_insert_def
  documents_delete_def analyses_insert_def analyses_delete_def settled_ok_def stored_rows_def
  emit_def Let_def substring0_def


lemma take_long_text: "take 3000 long_text = replicate 3000 0x41"
  by (simp add: long_text_def)

section \<open>Claims about analyze-by-text\<close>

text \<open>
  C9. When the input is empty or consists of white space only, the only thing
  \<open>analyzeText\<close> does is to show the error toast: there is no API request nor any other
  network call, and the remote store is as before.
\<close>

theorem analyzeText_rejects_blank_text:
  "\<forall>c \<in> set v. is_js_space c \<Longrightarrow>
   calls w (analyzeText e (Some v) w) = [toast_error (lit ''Please enter some medical text'')] \<and>
   filter is_network (calls w (analyzeText e (Some v) w)) = [] \<and>
   store (analyzeText e (Some v) w) = store w"
  by (simp add: analyzeText_def calls_def trim_empty_iff[symmetric])

theorem analyzeText_rejects_blank_text_witness:
  "is_js_space 0x20 \<and> trim [0x20, 0x20] = [] \<and>
   calls world_ready (analyzeText env_ok (Some [0x20, 0x20]) world_ready) =
     [toast_error (lit ''Please enter some medical text'')] \<and>
   filter is_network (calls world_ready (analyzeText env_ok (Some [0x20, 0x20]) world_ready)) = [] \<and>
   store (analyzeText env_ok (Some [0x20, 0x20]) world_ready) = store world_ready"
  using analyzeText_rejects_blank_text [of "[0x20, 0x20]" world_ready env_ok]
  by (simp add: is_js_space_def trim_def)

text \<open>
  C5. The only API request of a run of \<open>analyzeText\<close> carries the first 3000 code units
  of the trimmed input, which is the whole trimmed input when that is not longer; the
  request directly follows \<open>showLoading\<close>, so no error is raised for a long input. A
  blank input makes no request at all.
\<close>

theorem analyzeText_sends_at_most_3000:
  "filter is_api (calls w (analyzeText e (Some v) w)) =
     (if trim v = [] then [] else [ApiText (take 3000 (trim v))]) \<and>
   length (take 3000 (trim v)) \<le> 3000 \<and>
   (trim v \<noteq> [] \<longrightarrow>
      take 2 (calls w (analyzeText e (Some v) w)) =
        [ShowLoading, ApiText (take 3000 (trim v))])"
proof (cases "trim v = []")
  case True
  then show ?thesis by (simp add: analyzeText_def calls_def)
next
  case False
  from analyzeText_frame[OF False, of w e]
  obtain cs where cs: "calls w (analyzeText e (Some v) w) =
                ShowLoading # ApiText (take 3000 (trim v)) # cs"
     "\<forall>c \<in> set cs. persists_text (trim v) c \<and> \<not> is_api c" by blast
  have "filter is_api cs = []" using cs(2) by (simp add: filter_none)
  with cs(1) False show ?thesis by simp
qed


theorem analyzeText_sends_at_most_3000_witness:
  "trim long_text \<noteq> [] \<and> length long_text = 3001 \<and>
   filter is_api (calls world_ready (analyzeText env_ok (Some long_text) world_ready)) =
     [ApiText (replicate 3000 0x41)] \<and>
   take 2 (calls world_ready (analyzeText env_ok (Some long_text) world_ready)) =
     [ShowLoading, ApiText (replicate 3000 0x41)]"
  using analyzeText_sends_at_most_3000 [of world_ready env_ok long_text]
  by (simp add: take_long_text)

text \<open>
  C10. Every document row that a run of \<open>analyzeText\<close> inserts has the full trimmed
  input as its \<open>text_content\<close>, and every analysis row it inserts has the length of the
  full trimmed input as its \<open>text_length\<close>, whatever the API answered and however long
  the input is. With persistence enabled, a non-blank input and an \<open>ok\<close> answer of the
  API (which was sent the first 3000 code units only), the document row is inserted,
  and the analysis row as well when the document insert succeeded.
\<close>

theorem analyzeText_persists_full_text:
  "(\<forall>row. DocumentsInsert row \<in> set (calls w (analyzeText e (Some v) w)) \<longrightarrow>
      obj_get row ''text_content'' = JStr (trim v)) \<and>
   (\<forall>row. AnalysesInsert row \<in> set (calls w (analyzeText e (Some v) w)) \<longrightarrow>
      obj_get row ''text_length'' = JNum (int (length (trim v)))) \<and>
   (supabaseInitialized w \<and> supabaseClient w \<and> trim v \<noteq> [] \<and>
    (\<exists>result. api_answer e = ApiResponse True result) \<longrightarrow>
      ApiText (take 3000 (trim v)) \<in> set (calls w (analyzeText e (Some v) w)) \<and>
      DocumentsInsert (textDocument e (trim v)) \<in> set (calls w (analyzeText e (Some v) w)) \<and>
      (insert_ok (documents_insert_reply e) \<longrightarrow>
         (\<exists>row. AnalysesInsert row \<in> set (calls w (analyzeText e (Some v) w)))))"
proof (cases "trim v = []")
  case True
  then show ?thesis by (simp add: analyzeText_def calls_def toast_error_def)
next
  case False
  from analyzeText_frame[OF False, of w e]
  obtain cs where cs: "calls w (analyzeText e (Some v) w) =
                ShowLoading # ApiText (take 3000 (trim v)) # cs"
     "\<forall>c \<in> set cs. persists_text (trim v) c \<and> \<not> is_api c"
     "supabaseInitialized w \<and> (\<exists>result. api_answer e = ApiResponse True result) \<longrightarrow>
                 text_shape e w (trim v) cs" by blast
  have "\<forall>row. DocumentsInsert row \<in> set cs \<longrightarrow> obj_get row ''text_content'' = JStr (trim v)"
    using cs(2) by fastforce
  moreover have "\<forall>row. AnalysesInsert row \<in> set cs \<longrightarrow>
      obj_get row ''text_length'' = JNum (int (length (trim v)))"
    using cs(2) by fastforce
  ultimately show ?thesis using cs(1,3) by (auto simp: text_shape_def)
qed


theorem analyzeText_persists_full_text_witness:
  "supabaseInitialized world_ready \<and> supabaseClient world_ready \<and> trim long_text \<noteq> [] \<and>
   api_answer env_ok = ApiResponse True sample_result \<and>
   insert_ok (documents_insert_reply env_ok) \<and>
   length (trim long_text) = 3001 \<and>
   ApiText (replicate 3000 0x41)
     \<in> set (calls world_ready (analyzeText env_ok (Some long_text) world_ready)) \<and>
   DocumentsInsert (textDocument env_ok long_text)
     \<in> set (calls world_ready (analyzeText env_ok (Some long_text) world_ready)) \<and>
   obj_get (textDocument env_ok long_text) ''text_content'' = JStr long_text \<and>
   AnalysesInsert
     (insertData env_ok
        [(''analysis'', JStr (lit ''OK'')), (''filename'', JUndefined),
         (''file_size'', JUndefined), (''text_length'', JNum 3001)] (JNum 7))
     \<in> set (calls world_ready (analyzeText env_ok (Some long_text) world_ready)) \<and>
   obj_get
     (insertData env_ok
        [(''analysis'', JStr (lit ''OK'')), (''filename'', JUndefined),
         (''file_size'', JUndefined), (''text_length'', JNum 3001)] (JNum 7))
     ''text_length'' = JNum 3001"
proof -
  have run: "AnalysesInsert
     (insertData env_ok
        [(''analysis'', JStr (lit ''OK'')), (''filename'', JUndefined),
         (''file_size'', JUndefined), (''text_length'', JNum 3001)] (JNum 7))
     \<in> set (calls world_ready (analyzeText env_ok (Some long_text) world_ready))"
    by (simp add: text_run_defs calls_def env_ok_def world_ready_def
          sample_document_row_def sample_analysis_row_def row_id_def
          obj_get_def sample_result_def obj_delete_def)
  have pre: "supabaseInitialized world_ready" "supabaseClient world_ready"
    "api_answer env_ok = ApiResponse True sample_result"
    "insert_ok (documents_insert_reply env_ok)"
    by (simp_all add: world_ready_def env_ok_def insert_ok_def)
  from analyzeText_persists_full_text [of world_ready env_ok long_text] run pre
  show ?thesis by (simp add: take_long_text)
qed


section \<open>Claims about the service worker\<close>

lemma map_of_cache_put_entry [simp]: "map_of (cache_put_entry c u r) u = Some r"
  by (induction c) auto

lemma caches_match_put:
  "caches_match cs u = None \<Longrightarrow> caches_match (caches_open_put cs n u r) u = Some r"
  by (induction cs) (auto split: option.splits)

lemmas sw_defs = dispatch_fetch_def fetch_listener_routing_def fetch_listener_navigate_def
  respondWith_def serve_def sw_fetch_def exn_list_def Let_def

text \<open>
  The routing listener calls \<open>respondWith\<close> on every event, so the navigation listener
  registered after it is never invoked.
\<close>

lemma routing_always_responds:
  "ev_responded ev = None \<Longrightarrow>
   ev_responded (fst (snd (fetch_listener_routing net (ev, s)))) \<noteq> None"
  by (auto simp: fetch_listener_routing_def respondWith_def Let_def split: option.splits)

lemma navigate_listener_never_runs:
  "dispatch_fetch net root r s =
     (case fetch_listener_routing net (\<lparr>ev_request = r, ev_responded = None\<rparr>, s) of
        (x1, ev1, s1) \<Rightarrow> \<lparr>page_gets = serve net ev1, thrown = exn_list x1, state_after = s1\<rparr>)"
  using routing_always_responds[of "\<lparr>ev_request = r, ev_responded = None\<rparr>" net s]
  by (auto simp: dispatch_fetch_def split: prod.splits)

lemma uncached_navigation_fails_offline:
  assumes "req_mode r = Navigate" and "\<not> js_includes (req_url r) ''/api/''"
    and "caches_match (caches s) (req_url r) = None" and "net r = None"
  shows "page_gets (dispatch_fetch net root r s) = NetworkError"
  using assms by (simp add: sw_defs)

text \<open>
  C6 does not hold of the worker. With the root document in the cache and the network
  down, a navigation to a page that is not cached is answered by the routing listener
  alone, whose promise rejects: the page gets a network error, not the cached root
  document.
\<close>

theorem navigation_offline_gets_network_error:
  "req_mode history_navigation = Navigate \<and>
   caches_match (caches sw_installed) root_url = Some root_document \<and>
   offline history_navigation = None \<and>
   page_gets (dispatch_fetch offline root_url history_navigation sw_installed) = NetworkError"
  by (simp add: sw_defs history_navigation_def sw_installed_def offline_def root_url_def
        CACHE_NAME_def)

text \<open>
  C7. For a request whose URL does not contain \<open>/api/\<close> and that no cache matches, the
  worker fetches it from the network. The response is handed to the page, and it is
  stored in the current cache, where the next lookup finds it, exactly when its status
  is 200 and its type is \<open>basic\<close>; otherwise, and when the fetch fails, the caches are
  left as they were.
\<close>

theorem static_asset_cached_iff_basic_200:
  assumes "\<not> js_includes (req_url r) ''/api/''"
    and "caches_match (caches s) (req_url r) = None"
  shows "r \<in> set (fetched (state_after (dispatch_fetch net root r s))) \<and>
         (\<forall>resp. net r = Some resp \<longrightarrow>
            page_gets (dispatch_fetch net root r s) = Served resp \<and>
            (if status resp = 200 \<and> rtype resp = Basic
             then caches (state_after (dispatch_fetch net root r s)) =
                    caches_open_put (caches s) CACHE_NAME (req_url r) resp \<and>
                  caches_match (caches (state_after (dispatch_fetch net root r s))) (req_url r) =
                    Some resp
             else caches (state_after (dispatch_fetch net root r s)) = caches s)) \<and>
         (net r = None \<longrightarrow> caches (state_after (dispatch_fetch net root r s)) = caches s)"
  using assms
  by (cases "net r") (auto simp: sw_defs caches_match_put)

theorem static_asset_cached_iff_basic_200_witness:
  "\<not> js_includes (req_url script_request) ''/api/'' \<and>
   caches_match (caches sw_installed) (req_url script_request) = None \<and>
   online script_request = Some script_response \<and>
   status script_response = 200 \<and> rtype script_response = Basic \<and>
   page_gets (dispatch_fetch online root_url script_request sw_installed) =
     Served script_response \<and>
   caches_match (caches (state_after (dispatch_fetch online root_url script_request sw_installed)))
     (req_url script_request) = Some script_response \<and>
   online_opaque script_request = Some opaque_response \<and>
   rtype opaque_response \<noteq> Basic \<and>
   page_gets (dispatch_fetch online_opaque root_url script_request sw_installed) =
     Served opaque_response \<and>
   caches (state_after (dispatch_fetch online_opaque root_url script_request sw_installed)) =
     caches sw_installed"
  using static_asset_cached_iff_basic_200 [of script_request sw_installed online root_url]
        static_asset_cached_iff_basic_200 [of script_request sw_installed online_opaque root_url]
  by (simp add: script_request_def sw_installed_def online_def online_opaque_def
        script_response_def opaque_response_def root_url_def CACHE_NAME_def)

end
